theory Spec2Isabelle
  imports Main "HOL-Library.AList"
begin

section \<open>JSON values as Python sees them\<close>

text \<open>
  \<^verbatim>\<open>request.get_json()\<close> hands the handlers a Python value built from JSON: \<^verbatim>\<open>None\<close>,
  a bool, a number, a str, a list or a dict. Numbers are modelled as integers (no floats).
  A dict is an association list in insertion order, each key once; \<^verbatim>\<open>d.get(k, default)\<close>,
  \<^verbatim>\<open>k in d\<close> and \<^verbatim>\<open>d[k] = v\<close> are \<open>dict_get\<close>, \<open>has_key\<close> and \<open>AList.update\<close> (which
  replaces the value in place, or appends the new key at the end).
\<close>

datatype json =
    JNull
  | JBool bool
  | JInt int
  | JStr string
  | JArr "json list"
  | JObj "(string \<times> json) list"

text \<open>Python truthiness, as used by \<^verbatim>\<open>not data\<close>, \<^verbatim>\<open>all([...])\<close> and \<^verbatim>\<open>if additional_query\<close>.\<close>

fun truthy :: "json \<Rightarrow> bool" where
  "truthy JNull = False"
| "truthy (JBool b) = b"
| "truthy (JInt n) = (n \<noteq> 0)"
| "truthy (JStr s) = (s \<noteq> [])"
| "truthy (JArr xs) = (xs \<noteq> [])"
| "truthy (JObj kvs) = (kvs \<noteq> [])"

text \<open>
  Whether Python can hash the value, as \<^verbatim>\<open>x in some_dict\<close> does: a list or a dict raises
  \<^verbatim>\<open>TypeError\<close>.
\<close>

fun hashable :: "json \<Rightarrow> bool" where
  "hashable (JArr xs) = False"
| "hashable (JObj kvs) = False"
| "hashable v = True"

definition dict_get :: "(string \<times> json) list \<Rightarrow> string \<Rightarrow> json \<Rightarrow> json" where
  "dict_get kvs k d = (case map_of kvs k of None \<Rightarrow> d | Some v \<Rightarrow> v)"

definition has_key :: "(string \<times> json) list \<Rightarrow> string \<Rightarrow> bool" where
  "has_key kvs k = (map_of kvs k \<noteq> None)"

subsection \<open>Formatting values into f-strings\<close>

definition digit :: "nat \<Rightarrow> char" where
  "digit n = ''0123456789'' ! (n mod 10)"

function str_nat :: "nat \<Rightarrow> string" where
  "str_nat n = (if n < 10 then [digit n] else str_nat (n div 10) @ [digit n])"
  by pat_completeness auto
termination
  by (relation "measure id") auto

declare str_nat.simps [simp del]

definition str_int :: "int \<Rightarrow> string" where
  "str_int i = (if i < 0 then ''-'' @ str_nat (nat (- i)) else str_nat (nat i))"

text \<open>
  \<^verbatim>\<open>f"{v}"\<close> is \<^verbatim>\<open>str(v)\<close>: a str is inserted as it is, \<^verbatim>\<open>None\<close>, bools and ints by their
  Python spelling. For a list or a dict Python prints its \<^verbatim>\<open>repr\<close>; that printer belongs
  to the language and is the parameter \<open>repr\<close>.
\<close>

fun py_str :: "(json \<Rightarrow> string) \<Rightarrow> json \<Rightarrow> string" where
  "py_str repr (JStr s) = s"
| "py_str repr JNull = ''None''"
| "py_str repr (JBool b) = (if b then ''True'' else ''False'')"
| "py_str repr (JInt n) = str_int n"
| "py_str repr v = repr v"

section \<open>Naive and aware datetimes\<close>

text \<open>
  A \<^verbatim>\<open>datetime\<close> is the reading of its calendar fields, counted in microseconds from
  0001-01-01T00:00:00 (\<open>wall\<close>), and its \<^verbatim>\<open>utcoffset()\<close> in microseconds, \<open>None\<close> for a
  naive value. A \<^verbatim>\<open>timedelta\<close> is a number of microseconds. \<^verbatim>\<open>datetime.utcnow()\<close> is naive;
  the clock reading is a parameter of every handler.
\<close>

record datetime =
  wall :: int
  tzoffset :: "int option"

definition us_per_minute :: int where "us_per_minute = 60 * 1000000"
definition us_per_hour :: int where "us_per_hour = 3600 * 1000000"
definition us_per_day :: int where "us_per_day = 86400 * 1000000"

definition minutes :: "int \<Rightarrow> int" where "minutes n = n * us_per_minute"
definition hours :: "int \<Rightarrow> int" where "hours n = n * us_per_hour"
definition days :: "int \<Rightarrow> int" where "days n = n * us_per_day"

text \<open>\<^verbatim>\<open>datetime.max\<close> is 9999-12-31T23:59:59.999999, day 3652059 of the calendar.\<close>

definition max_wall :: int where
  "max_wall = 3652059 * us_per_day"

definition utcnow :: "int \<Rightarrow> datetime" where
  "utcnow clock = \<lparr>wall = clock, tzoffset = None\<rparr>"

text \<open>
  \<^verbatim>\<open>dt + td\<close> and \<^verbatim>\<open>dt - td\<close> keep the tzinfo and raise \<^verbatim>\<open>OverflowError\<close> (here \<open>None\<close>)
  when the result leaves the years 1 to 9999.
\<close>

definition dt_add :: "datetime \<Rightarrow> int \<Rightarrow> datetime option" where
  "dt_add d td =
     (let w = wall d + td
      in if 0 \<le> w \<and> w < max_wall then Some (d\<lparr>wall := w\<rparr>) else None)"

definition dt_sub :: "datetime \<Rightarrow> int \<Rightarrow> datetime option" where
  "dt_sub d td = dt_add d (- td)"

subsection \<open>isoformat\<close>

definition pad2 :: "nat \<Rightarrow> string" where
  "pad2 n = [digit (n div 10), digit n]"

definition pad4 :: "nat \<Rightarrow> string" where
  "pad4 n = [digit (n div 1000), digit (n div 100), digit (n div 10), digit n]"

definition pad6 :: "nat \<Rightarrow> string" where
  "pad6 n = [digit (n div 100000), digit (n div 10000), digit (n div 1000),
             digit (n div 100), digit (n div 10), digit n]"

definition days_before_month :: "nat list" where
  "days_before_month = [0, 0, 31, 59, 90, 120, 151, 181, 212, 243, 273, 304, 334]"

definition days_in_month :: "nat list" where
  "days_in_month = [0, 31, 28, 31, 30, 31, 30, 31, 31, 30, 31, 30, 31]"

text \<open>
  The library's conversion of a day count to (year, month, day) in the proleptic Gregorian
  calendar; \<open>n0\<close> is the ordinal minus one, so day 0 is 0001-01-01.
\<close>

definition ord2ymd :: "nat \<Rightarrow> nat \<times> nat \<times> nat" where
  "ord2ymd n0 =
     (let n400 = n0 div 146097; na = n0 mod 146097;
          n100 = na div 36524; nb = na mod 36524;
          n4 = nb div 1461; nc = nb mod 1461;
          n1 = nc div 365; n = nc mod 365;
          year = n400 * 400 + 1 + n100 * 100 + n4 * 4 + n1
      in if n1 = 4 \<or> n100 = 4 then (year - 1, 12, 31)
         else
           let leapyear = (n1 = 3 \<and> (n4 \<noteq> 24 \<or> n100 = 3));
               month = (n + 50) div 32;
               preceding = days_before_month ! month + (if month > 2 \<and> leapyear then 1 else 0)
           in if preceding > n
              then let month' = month - 1;
                       preceding' = preceding -
                         (days_in_month ! month' + (if month' = 2 \<and> leapyear then 1 else 0))
                   in (year, month', n - preceding' + 1)
              else (year, month, n - preceding + 1))"

definition format_date :: "nat \<Rightarrow> string" where
  "format_date n0 =
     (case ord2ymd n0 of (y, m, d) \<Rightarrow> pad4 y @ ''-'' @ pad2 m @ ''-'' @ pad2 d)"

text \<open>Time of day from the microseconds since midnight; the fraction is printed only when non-zero.\<close>

definition format_time :: "nat \<Rightarrow> string" where
  "format_time t =
     (let us = t mod 1000000; s = t div 1000000
      in pad2 (s div 3600) @ '':'' @ pad2 (s div 60 mod 60) @ '':'' @ pad2 (s mod 60)
         @ (if us \<noteq> 0 then ''.'' @ pad6 us else []))"

definition format_offset :: "int option \<Rightarrow> string" where
  "format_offset off =
     (case off of
        None \<Rightarrow> []
      | Some o_us \<Rightarrow>
          let a = nat \<bar>o_us\<bar>; us = a mod 1000000; s = a div 1000000
          in (if o_us < 0 then ''-'' else ''+'')
             @ pad2 (s div 3600) @ '':'' @ pad2 (s div 60 mod 60)
             @ (if s mod 60 \<noteq> 0 \<or> us \<noteq> 0 then '':'' @ pad2 (s mod 60) else [])
             @ (if us \<noteq> 0 then ''.'' @ pad6 us else []))"

definition isoformat :: "datetime \<Rightarrow> string" where
  "isoformat d =
     format_date (nat (wall d div us_per_day)) @ ''T''
     @ format_time (nat (wall d mod us_per_day))
     @ format_offset (tzoffset d)"

text \<open>
  Fixtures for running the model on concrete requests: a container printer for requests
  that format no list or dict, and the library parser on the one timestamp
  \<^verbatim>\<open>2024-01-01T00:00:00+00:00\<close>.
\<close>

definition no_repr :: "json \<Rightarrow> string" where
  "no_repr v = []"

definition parse_new_year :: "string \<Rightarrow> datetime option" where
  "parse_new_year s =
     (if s = ''2024-01-01T00:00:00+00:00''
      then Some \<lparr>wall = 63839664000000000, tzoffset = Some 0\<rparr> else None)"

section \<open>What a handler does with a request\<close>

text \<open>
  A handler either answers by itself with an error (\<open>Fail\<close>: the JSON body
  \<^verbatim>\<open>{"error": msg}\<close> and a status code, with no outbound request), or it reaches
  \<^verbatim>\<open>requests.post\<close> (\<open>Post\<close>: the endpoint and the JSON payload put on the wire). The
  model follows each handler up to that call.
\<close>

datatype failure =
    PayloadRequired
  | MissingParameters "string list"
  | InvalidTimerange
  | InvalidTimestamp
  | QueryFailed
  | LogsRequired
  | EntryNotObject
  | MissingMessage
  | InternalError

datatype endpoint = SearchV2 | SearchV1 | Intake

datatype outcome = Fail failure | Post endpoint json

fun http_status :: "failure \<Rightarrow> nat" where
  "http_status QueryFailed = 500"
| "http_status InternalError = 500"
| "http_status _ = 400"

fun join_comma :: "string list \<Rightarrow> string" where
  "join_comma [] = []"
| "join_comma [x] = x"
| "join_comma (x # xs) = x @ '', '' @ join_comma xs"

text \<open>
  The error text. Where the source appends \<^verbatim>\<open>str(e)\<close> of a caught exception, the fixed
  prefix is given.
\<close>

fun error_msg :: "failure \<Rightarrow> string" where
  "error_msg PayloadRequired = ''JSON payload required''"
| "error_msg (MissingParameters ks) = ''Missing required parameters: '' @ join_comma ks"
| "error_msg InvalidTimerange =
     ''Invalid timerange. Supported values: ['1h', '30m', '1d', '7d', '15m', '4h', '24h']''"
| "error_msg InvalidTimestamp = ''Invalid timestamp format. Use ISO format (e.g., '2024-01-01T00:00:00Z'): ''"
| "error_msg QueryFailed = ''Failed to query Datadog: ''"
| "error_msg LogsRequired = ''JSON payload with 'logs' array required''"
| "error_msg EntryNotObject = ''Each log entry must be a JSON object''"
| "error_msg MissingMessage = ''Each log entry must contain a 'message' field''"
| "error_msg InternalError = ''Internal server error: ''"

section \<open>DatadogLogsClient.search_logs\<close>

text \<open>
  \<^verbatim>\<open>min(limit, 1000)\<close> on a JSON value: an int is compared, a bool is an int below 1000
  and is returned as it is, \<^verbatim>\<open>None\<close>, str, list and dict raise \<^verbatim>\<open>TypeError\<close> (\<open>None\<close>).
\<close>

fun min_1000 :: "json \<Rightarrow> json option" where
  "min_1000 (JInt n) = Some (JInt (min n 1000))"
| "min_1000 (JBool b) = Some (JBool b)"
| "min_1000 _ = None"

text \<open>
  \<^verbatim>\<open>DatadogLogsClient.search_logs\<close> of opsight.py: the v2 payload. The \<^verbatim>\<open>TypeError\<close> of
  \<open>min\<close> is raised while the payload is built, before anything is sent.
\<close>

definition opsight_search_logs :: "json \<Rightarrow> string \<Rightarrow> string \<Rightarrow> json \<Rightarrow> (endpoint \<times> json) option" where
  "opsight_search_logs query start_time end_time limit =
     (case min_1000 limit of
        None \<Rightarrow> None
      | Some l \<Rightarrow>
          Some (SearchV2,
            JObj [(''filter'', JObj [(''query'', query), (''from'', JStr start_time),
                                     (''to'', JStr end_time)]),
                  (''sort'', JStr ''-timestamp''),
                  (''page'', JObj [(''limit'', l)])]))"

text \<open>
  \<^verbatim>\<open>DatadogLogsClient.search_logs\<close> of \<^verbatim>\<open>logs_querier.py\<close>: the v1 payload carries the
  limit as it came.
\<close>

definition querier_search_logs :: "json \<Rightarrow> string \<Rightarrow> string \<Rightarrow> json \<Rightarrow> (endpoint \<times> json) option" where
  "querier_search_logs query start_time end_time limit =
     Some (SearchV1,
       JObj [(''query'', query),
             (''time'', JObj [(''from'', JStr start_time), (''to'', JStr end_time)]),
             (''sort'', JStr ''timestamp''),
             (''limit'', limit)])"

text \<open>
  The handlers wrap the client call in \<^verbatim>\<open>try ... except Exception\<close>: an exception of the
  client before the request is sent becomes the 500 answer "Failed to query Datadog".
\<close>

definition dispatch :: "(endpoint \<times> json) option \<Rightarrow> outcome" where
  "dispatch r = (case r of None \<Rightarrow> Fail QueryFailed | Some (ep, payload) \<Rightarrow> Post ep payload)"

text \<open>The page limit a search payload carries, for either API version.\<close>

fun sent_limit :: "outcome \<Rightarrow> json option" where
  "sent_limit (Post SearchV2 (JObj kvs)) =
     (case map_of kvs ''page'' of Some (JObj p) \<Rightarrow> map_of p ''limit'' | _ \<Rightarrow> None)"
| "sent_limit (Post SearchV1 (JObj kvs)) = map_of kvs ''limit''"
| "sent_limit _ = None"

text \<open>The two instants a search payload carries, as the strings on the wire.\<close>

fun sent_window :: "outcome \<Rightarrow> (json \<times> json) option" where
  "sent_window (Post SearchV2 (JObj kvs)) =
     (case map_of kvs ''filter'' of
        Some (JObj f) \<Rightarrow>
          (case (map_of f ''from'', map_of f ''to'') of
             (Some a, Some b) \<Rightarrow> Some (a, b) | _ \<Rightarrow> None)
      | _ \<Rightarrow> None)"
| "sent_window (Post SearchV1 (JObj kvs)) =
     (case map_of kvs ''time'' of
        Some (JObj f) \<Rightarrow>
          (case (map_of f ''from'', map_of f ''to'') of
             (Some a, Some b) \<Rightarrow> Some (a, b) | _ \<Rightarrow> None)
      | _ \<Rightarrow> None)"
| "sent_window _ = None"

fun is_post :: "outcome \<Rightarrow> bool" where
  "is_post (Post ep p) = True"
| "is_post (Fail f) = False"

section \<open>Building the filter string\<close>

text \<open>
  \<^verbatim>\<open>query = f"service:{service}"\<close>, then a space and the extra filter when that is truthy.
\<close>

definition build_query :: "(json \<Rightarrow> string) \<Rightarrow> json \<Rightarrow> json \<Rightarrow> string" where
  "build_query repr service additional_query =
     (let query = ''service:'' @ py_str repr service
      in if truthy additional_query then query @ '' '' @ py_str repr additional_query
         else query)"

section \<open>POST /logs/search/timerange\<close>

definition timerange_map :: "(string \<times> int) list" where
  "timerange_map =
     [(''1h'', hours 1), (''30m'', minutes 30), (''1d'', days 1), (''7d'', days 7),
      (''15m'', minutes 15), (''4h'', hours 4), (''24h'', hours 24)]"

text \<open>
  \<^verbatim>\<open>timerange not in timerange_map\<close> hashes the value: a list or a dict raises
  \<^verbatim>\<open>TypeError\<close>, which the handler's outer \<^verbatim>\<open>except Exception\<close> turns into a 500. Then
  \<^verbatim>\<open>start_time = now - timerange_map[timerange]\<close>, \<^verbatim>\<open>end_time = now\<close>.
\<close>

definition resolve_timerange :: "int \<Rightarrow> json \<Rightarrow> failure + (datetime \<times> datetime)" where
  "resolve_timerange clock timerange =
     (let now = utcnow clock
      in case timerange of
           JArr xs \<Rightarrow> Inl InternalError
         | JObj kvs \<Rightarrow> Inl InternalError
         | JStr tok \<Rightarrow>
             (case map_of timerange_map tok of
                None \<Rightarrow> Inl InvalidTimerange
              | Some delta \<Rightarrow>
                  (case dt_sub now delta of
                     None \<Rightarrow> Inl InternalError
                   | Some start_time \<Rightarrow> Inr (start_time, now)))
         | _ \<Rightarrow> Inl InvalidTimerange)"

text \<open>
  \<^verbatim>\<open>search_logs_with_timerange\<close> is the same text in opsight.py and \<^verbatim>\<open>logs_querier.py\<close>;
  the two differ in the client they call, which is the parameter \<open>client\<close>.
\<close>

definition search_logs_with_timerange ::
  "(json \<Rightarrow> string \<Rightarrow> string \<Rightarrow> json \<Rightarrow> (endpoint \<times> json) option)
     \<Rightarrow> (json \<Rightarrow> string) \<Rightarrow> int \<Rightarrow> json \<Rightarrow> outcome" where
  "search_logs_with_timerange client repr clock data =
     (if \<not> truthy data then Fail PayloadRequired
      else case data of
        JObj kvs \<Rightarrow>
          (let service = dict_get kvs ''service'' JNull;
               timerange = dict_get kvs ''timerange'' JNull
           in if \<not> (truthy service \<and> truthy timerange)
              then Fail (MissingParameters [''service'', ''timerange''])
              else case resolve_timerange clock timerange of
                     Inl f \<Rightarrow> Fail f
                   | Inr (start_time, end_time) \<Rightarrow>
                       (let limit = dict_get kvs ''limit'' (JInt 50);
                            additional_query = dict_get kvs ''query'' (JStr []);
                            query = build_query repr service additional_query;
                            start_iso = isoformat start_time;
                            end_iso = isoformat end_time
                        in dispatch (client (JStr query) start_iso end_iso limit)))
      | _ \<Rightarrow> Fail InternalError)"

section \<open>POST /logs/search\<close>

text \<open>\<^verbatim>\<open>s.replace('Z', '+00:00')\<close>: every \<^verbatim>\<open>Z\<close> of the string is replaced.\<close>

definition replace_Z :: "string \<Rightarrow> string" where
  "replace_Z s = concat (map (\<lambda>c. if c = CHR ''Z'' then ''+00:00'' else [c]) s)"

text \<open>
  \<^verbatim>\<open>datetime.fromisoformat(x.replace('Z', '+00:00'))\<close> on a request value. The parser is
  the standard library's and is the parameter \<open>parse\<close> (\<open>None\<close> is its \<^verbatim>\<open>ValueError\<close>).
  A value that is not a str has no \<^verbatim>\<open>replace\<close>: the \<^verbatim>\<open>AttributeError\<close> is not caught by
  \<^verbatim>\<open>except ValueError\<close> and ends in the handler's 500.
\<close>

definition parse_timestamp :: "(string \<Rightarrow> datetime option) \<Rightarrow> json \<Rightarrow> failure + datetime" where
  "parse_timestamp parse v =
     (case v of
        JStr s \<Rightarrow> (case parse (replace_Z s) of None \<Rightarrow> Inl InvalidTimestamp | Some d \<Rightarrow> Inr d)
      | _ \<Rightarrow> Inl InternalError)"

definition parse_window ::
  "(string \<Rightarrow> datetime option) \<Rightarrow> json \<Rightarrow> json \<Rightarrow> failure + (datetime \<times> datetime)" where
  "parse_window parse start_time end_time =
     (case parse_timestamp parse start_time of
        Inl f \<Rightarrow> Inl f
      | Inr start_dt \<Rightarrow>
          (case parse_timestamp parse end_time of
             Inl f \<Rightarrow> Inl f
           | Inr end_dt \<Rightarrow> Inr (start_dt, end_dt)))"

text \<open>
  opsight.py, the default branch: \<^verbatim>\<open>start_time = now - timedelta(hours=1)\<close>,
  \<^verbatim>\<open>end_time = start_time + timedelta(minutes=5)\<close>.
\<close>

definition default_window :: "int \<Rightarrow> failure + (datetime \<times> datetime)" where
  "default_window clock =
     (case dt_sub (utcnow clock) (hours 1) of
        None \<Rightarrow> Inl InternalError
      | Some start_time \<Rightarrow>
          (case dt_add start_time (minutes 5) of
             None \<Rightarrow> Inl InternalError
           | Some end_time \<Rightarrow> Inr (start_time, end_time)))"

text \<open>
  The route function \<^verbatim>\<open>search_logs\<close> of opsight.py (the raw-query route):
  \<^verbatim>\<open>data = request.get_json() or {}\<close>; the default window when either key is missing,
  the parsed one otherwise; either branch appends \<^verbatim>\<open>'Z'\<close> to \<^verbatim>\<open>isoformat()\<close>.
\<close>

definition opsight_window ::
  "(string \<Rightarrow> datetime option) \<Rightarrow> int \<Rightarrow> (string \<times> json) list
     \<Rightarrow> failure + (datetime \<times> datetime)" where
  "opsight_window parse clock kvs =
     (if \<not> has_key kvs ''start_time'' \<or> \<not> has_key kvs ''end_time''
      then default_window clock
      else parse_window parse (dict_get kvs ''start_time'' JNull) (dict_get kvs ''end_time'' JNull))"

definition or_empty :: "json \<Rightarrow> json" where
  "or_empty body = (if truthy body then body else JObj [])"

definition opsight_search ::
  "(string \<Rightarrow> datetime option) \<Rightarrow> int \<Rightarrow> json \<Rightarrow> outcome" where
  "opsight_search parse clock body =
     (let data = or_empty body
      in case data of
           JObj kvs \<Rightarrow>
             (let query = dict_get kvs ''query'' (JStr ''datadog-agent'');
                  limit = dict_get kvs ''limit'' (JInt 5)
              in case opsight_window parse clock kvs of
                   Inl f \<Rightarrow> Fail f
                 | Inr (start_time, end_time) \<Rightarrow>
                     (let start_iso = isoformat start_time @ ''Z'';
                          end_iso = isoformat end_time @ ''Z''
                      in dispatch (opsight_search_logs query start_iso end_iso limit)))
         | _ \<Rightarrow> Fail InternalError)"

text \<open>
  The route function \<^verbatim>\<open>search_logs\<close> of \<^verbatim>\<open>logs_querier.py\<close> (the service route with
  absolute instants); no suffix is appended to \<^verbatim>\<open>isoformat()\<close>.
\<close>

definition querier_search ::
  "(string \<Rightarrow> datetime option) \<Rightarrow> (json \<Rightarrow> string) \<Rightarrow> json \<Rightarrow> outcome" where
  "querier_search parse repr data =
     (if \<not> truthy data then Fail PayloadRequired
      else case data of
        JObj kvs \<Rightarrow>
          (let service = dict_get kvs ''service'' JNull;
               start_time = dict_get kvs ''start_time'' JNull;
               end_time = dict_get kvs ''end_time'' JNull
           in if \<not> (truthy service \<and> truthy start_time \<and> truthy end_time)
              then Fail (MissingParameters [''service'', ''start_time'', ''end_time''])
              else
                (let limit = dict_get kvs ''limit'' (JInt 50);
                     additional_query = dict_get kvs ''query'' (JStr []);
                     query = build_query repr service additional_query
                 in case parse_window parse start_time end_time of
                      Inl f \<Rightarrow> Fail f
                    | Inr (start_dt, end_dt) \<Rightarrow>
                        dispatch (querier_search_logs (JStr query)
                                    (isoformat start_dt) (isoformat end_dt) limit)))
      | _ \<Rightarrow> Fail InternalError)"

section \<open>POST /logs/submit\<close>

text \<open>\<^verbatim>\<open>'logs' in data\<close> on a str is a substring test.\<close>

fun starts_with :: "string \<Rightarrow> string \<Rightarrow> bool" where
  "starts_with [] s = True"
| "starts_with (p # ps) [] = False"
| "starts_with (p # ps) (c # cs) = (p = c \<and> starts_with ps cs)"

fun contains :: "string \<Rightarrow> string \<Rightarrow> bool" where
  "contains sub [] = (sub = [])"
| "contains sub (c # cs) = (starts_with sub (c # cs) \<or> contains sub cs)"

text \<open>
  The namespacing of one entry: \<^verbatim>\<open>log['service'] = 'opsight'\<close> when the key is absent,
  \<^verbatim>\<open>f"opsight.{log['service']}"\<close> when its value is not \<^verbatim>\<open>'opsight'\<close>.
\<close>

definition namespace_service :: "(json \<Rightarrow> string) \<Rightarrow> (string \<times> json) list \<Rightarrow> (string \<times> json) list" where
  "namespace_service repr log =
     (case map_of log ''service'' of
        None \<Rightarrow> AList.update ''service'' (JStr ''opsight'') log
      | Some v \<Rightarrow>
          if v \<noteq> JStr ''opsight''
          then AList.update ''service'' (JStr (''opsight.'' @ py_str repr v)) log
          else log)"

text \<open>
  The loop over the entries returns the 400 answer at the first entry that is not a dict
  or has no \<^verbatim>\<open>message\<close>; otherwise every entry has been namespaced.
\<close>

fun process_logs :: "(json \<Rightarrow> string) \<Rightarrow> json list \<Rightarrow> failure + (string \<times> json) list list" where
  "process_logs repr [] = Inr []"
| "process_logs repr (JObj log # rest) =
     (if \<not> has_key log ''message'' then Inl MissingMessage
      else case process_logs repr rest of
             Inl f \<Rightarrow> Inl f
           | Inr rest' \<Rightarrow> Inr (namespace_service repr log # rest'))"
| "process_logs repr (v # rest) = Inl EntryNotObject"

text \<open>
  \<^verbatim>\<open>DatadogLogsClient.submit_log\<close> on a list of dicts: an entry without \<^verbatim>\<open>timestamp\<close> gets
  \<^verbatim>\<open>datetime.utcnow().isoformat() + 'Z'\<close>, then the list is posted to the intake.
\<close>

definition stamp :: "int \<Rightarrow> (string \<times> json) list \<Rightarrow> (string \<times> json) list" where
  "stamp clock log =
     (if \<not> has_key log ''timestamp''
      then AList.update ''timestamp'' (JStr (isoformat (utcnow clock) @ ''Z'')) log
      else log)"

definition submit_log :: "int \<Rightarrow> (string \<times> json) list list \<Rightarrow> outcome" where
  "submit_log clock log_data = Post Intake (JArr (map (\<lambda>log. JObj (stamp clock log)) log_data))"

text \<open>
  \<^verbatim>\<open>if not data or 'logs' not in data\<close>, then \<^verbatim>\<open>data['logs']\<close>: a list or a str that passes
  the membership test fails at the subscript, a number or \<^verbatim>\<open>True\<close> at the membership test
  itself, both with a \<^verbatim>\<open>TypeError\<close> that ends in the handler's 500.
\<close>

definition submit_logs :: "(json \<Rightarrow> string) \<Rightarrow> int \<Rightarrow> json \<Rightarrow> outcome" where
  "submit_logs repr clock data =
     (if \<not> truthy data then Fail LogsRequired
      else case data of
        JObj kvs \<Rightarrow>
          (case map_of kvs ''logs'' of
             None \<Rightarrow> Fail LogsRequired
           | Some l \<Rightarrow>
               (let logs = (case l of JArr xs \<Rightarrow> xs | _ \<Rightarrow> [l])
                in case process_logs repr logs of
                     Inl f \<Rightarrow> Fail f
                   | Inr logs' \<Rightarrow> submit_log clock logs'))
      | JArr xs \<Rightarrow> if JStr ''logs'' \<in> set xs then Fail InternalError else Fail LogsRequired
      | JStr s \<Rightarrow> if contains ''logs'' s then Fail InternalError else Fail LogsRequired
      | _ \<Rightarrow> Fail InternalError)"

section \<open>The periodic logger\<close>

text \<open>
  What the environment does during one pass of \<^verbatim>\<open>while True\<close>: which of the calls made
  in that pass raise an \<^verbatim>\<open>Exception\<close>. In opsight.py these are \<^verbatim>\<open>os.uname()\<close>, the
  \<^verbatim>\<open>print\<close> before the submission, \<^verbatim>\<open>dd_client.submit_log\<close>, the \<^verbatim>\<open>print\<close> after it, the
  \<^verbatim>\<open>print\<close> and the \<^verbatim>\<open>logger.error\<close> of the inner handler, \<^verbatim>\<open>logger.info\<close>, and the
  \<^verbatim>\<open>logger.error\<close> of the outer handler.
\<close>

record tick =
  uname_raises :: bool
  print_attempt_raises :: bool
  submit_raises :: bool
  print_success_raises :: bool
  print_failure_raises :: bool
  error_log_raises :: bool
  info_log_raises :: bool
  handler_log_raises :: bool

datatype event = SubmitAttempt | ErrorLog | LocalLog | Sleep

datatype thread = Running | Dead

text \<open>
  \<^verbatim>\<open>time.sleep(LOG_INTERVAL_SECONDS)\<close> raises \<^verbatim>\<open>ValueError\<close> on a negative number. Which
  of the other numbers it takes depends on the platform and its timer; that is the
  parameter \<open>timer\<close>. The interval is \<^verbatim>\<open>int(os.getenv(...))\<close>, any integer.
\<close>

definition sleep_raises :: "(int \<Rightarrow> bool) \<Rightarrow> int \<Rightarrow> bool" where
  "sleep_raises timer interval = (interval < 0 \<or> \<not> timer interval)"

text \<open>A fixture: a platform whose timer takes every number of seconds that is not negative.\<close>

definition any_timer :: "int \<Rightarrow> bool" where
  "any_timer secs = True"

text \<open>
  \<^verbatim>\<open>periodic_logger\<close> of opsight.py, the inner \<^verbatim>\<open>try\<close>: announce, submit, report success;
  its handler prints and logs the failure. The result is the events that happened and
  whether an exception left the statement (from its handler).
\<close>

definition opsight_submit_step :: "tick \<Rightarrow> event list \<times> bool" where
  "opsight_submit_step t =
     (let (ev, failed) =
            (if print_attempt_raises t then ([], True)
             else if submit_raises t then ([SubmitAttempt], True)
             else if print_success_raises t then ([SubmitAttempt], True)
             else ([SubmitAttempt], False))
      in if \<not> failed then (ev, False)
         else if print_failure_raises t then (ev, True)
         else if error_log_raises t then (ev, True)
         else (ev @ [ErrorLog], False))"

text \<open>
  The body of the outer \<^verbatim>\<open>try\<close>: build the status record, run the inner \<^verbatim>\<open>try\<close>, log
  locally, sleep.
\<close>

definition opsight_try_body :: "(int \<Rightarrow> bool) \<Rightarrow> int \<Rightarrow> tick \<Rightarrow> event list \<times> bool" where
  "opsight_try_body timer interval t =
     (if uname_raises t then ([], True)
      else case opsight_submit_step t of
        (ev, True) \<Rightarrow> (ev, True)
      | (ev, False) \<Rightarrow>
          if info_log_raises t then (ev, True)
          else if sleep_raises timer interval then (ev @ [LocalLog], True)
          else (ev @ [LocalLog, Sleep], False))"

text \<open>\<^verbatim>\<open>periodic_logger\<close> of \<^verbatim>\<open>logs_querier.py\<close>, the body of its \<^verbatim>\<open>try\<close>: log locally, sleep.\<close>

definition querier_try_body :: "(int \<Rightarrow> bool) \<Rightarrow> int \<Rightarrow> tick \<Rightarrow> event list \<times> bool" where
  "querier_try_body timer interval t =
     (if info_log_raises t then ([], True)
      else if sleep_raises timer interval then ([LocalLog], True)
      else ([LocalLog, Sleep], False))"

text \<open>
  \<^verbatim>\<open>except Exception\<close>: \<^verbatim>\<open>logger.error(...)\<close> and \<^verbatim>\<open>time.sleep(LOG_INTERVAL_SECONDS)\<close>, neither
  of them protected; an exception here leaves the loop and ends the thread.
\<close>

definition iteration ::
  "((int \<Rightarrow> bool) \<Rightarrow> int \<Rightarrow> tick \<Rightarrow> event list \<times> bool)
     \<Rightarrow> (int \<Rightarrow> bool) \<Rightarrow> int \<Rightarrow> tick \<Rightarrow> event list \<times> thread" where
  "iteration body timer interval t =
     (case body timer interval t of
        (ev, False) \<Rightarrow> (ev, Running)
      | (ev, True) \<Rightarrow>
          if handler_log_raises t then (ev, Dead)
          else if sleep_raises timer interval then (ev @ [ErrorLog], Dead)
          else (ev @ [ErrorLog, Sleep], Running))"

text \<open>
  The loop over the first passes, one \<open>tick\<close> each: the events so far and whether the
  thread is still in the loop after them.
\<close>

fun run_loop ::
  "((int \<Rightarrow> bool) \<Rightarrow> int \<Rightarrow> tick \<Rightarrow> event list \<times> bool)
     \<Rightarrow> (int \<Rightarrow> bool) \<Rightarrow> int \<Rightarrow> tick list \<Rightarrow> event list \<times> thread" where
  "run_loop body timer interval [] = ([], Running)"
| "run_loop body timer interval (t # ts) =
     (case iteration body timer interval t of
        (ev, Dead) \<Rightarrow> (ev, Dead)
      | (ev, Running) \<Rightarrow>
          (case run_loop body timer interval ts of (ev', st) \<Rightarrow> (ev @ ev', st)))"

definition opsight_periodic_logger :: "(int \<Rightarrow> bool) \<Rightarrow> int \<Rightarrow> tick list \<Rightarrow> event list \<times> thread" where
  "opsight_periodic_logger = run_loop opsight_try_body"

definition querier_periodic_logger :: "(int \<Rightarrow> bool) \<Rightarrow> int \<Rightarrow> tick list \<Rightarrow> event list \<times> thread" where
  "querier_periodic_logger = run_loop querier_try_body"

section \<open>Evaluation rules\<close>

lemmas iso_defs = isoformat_def format_date_def format_time_def format_offset_def
  ord2ymd_def pad2_def pad4_def pad6_def digit_def days_before_month_def days_in_month_def

lemmas td_defs = hours_def minutes_def days_def us_per_hour_def us_per_minute_def us_per_day_def
  max_wall_def

lemma isoformat_new_year: "isoformat \<lparr>wall = 63839664000000000, tzoffset = Some 0\<rparr> = ''2024-01-01T00:00:00+00:00''"
  by (simp add: iso_defs td_defs Let_def)

section \<open>The relative window\<close>

lemma resolve_timerange_token:
  assumes "map_of timerange_map tok = Some d" and "d \<le> clock" and "clock < max_wall + d"
  shows "resolve_timerange clock (JStr tok) = Inr (\<lparr>wall = clock - d, tzoffset = None\<rparr>, utcnow clock)"
  using assms by (simp add: resolve_timerange_def dt_sub_def dt_add_def utcnow_def Let_def)

lemma timerange_map_durations:
  assumes "(tok, d) \<in> {(''15m'', 900000000), (''30m'', 1800000000), (''1h'', 3600000000),
                        (''4h'', 14400000000), (''24h'', 86400000000), (''1d'', 86400000000),
                        (''7d'', 604800000000)}"
  shows "map_of timerange_map tok = Some d"
  using assms by (auto simp: timerange_map_def td_defs)

text \<open>
  C1. For each token of the closed enumeration, with its duration written out in
  microseconds, the relative route resolves the window \<open>[now - duration, now]\<close>: the end
  is the naive UTC clock reading, end minus start is the token's duration, and these two
  instants, rendered by \<open>isoformat\<close>, are what the handler passes to its client (either
  file's). The clock is assumed to be a valid datetime at least the duration after
  0001-01-01, so that the subtraction does not overflow.
\<close>

theorem timerange_window_duration:
  assumes tok: "(tok, d) \<in> {(''15m'', 900000000), (''30m'', 1800000000), (''1h'', 3600000000),
                        (''4h'', 14400000000), (''24h'', 86400000000), (''1d'', 86400000000),
                        (''7d'', 604800000000)}"
    and clock: "d \<le> clock" "clock < max_wall"
    and service: "truthy (dict_get kvs ''service'' JNull)"
    and timerange: "dict_get kvs ''timerange'' JNull = JStr tok"
  shows "\<exists>start_time end_time.
           resolve_timerange clock (JStr tok) = Inr (start_time, end_time)
         \<and> end_time = utcnow clock
         \<and> wall end_time - wall start_time = d
         \<and> tzoffset start_time = None
         \<and> search_logs_with_timerange client repr clock (JObj kvs) =
             dispatch (client (JStr (build_query repr (dict_get kvs ''service'' JNull)
                                        (dict_get kvs ''query'' (JStr []))))
                         (isoformat start_time) (isoformat end_time)
                         (dict_get kvs ''limit'' (JInt 50)))"
proof -
  have m: "map_of timerange_map tok = Some d"
    using tok by (rule timerange_map_durations)
  have pos: "0 \<le> d"
    using tok by auto
  have r: "resolve_timerange clock (JStr tok) =
             Inr (\<lparr>wall = clock - d, tzoffset = None\<rparr>, utcnow clock)"
    using m clock pos by (intro resolve_timerange_token) auto
  have ne: "tok \<noteq> []"
    using tok by auto
  have nonempty: "kvs \<noteq> []"
    using timerange by (auto simp: dict_get_def)
  have h: "search_logs_with_timerange client repr clock (JObj kvs) =
             dispatch (client (JStr (build_query repr (dict_get kvs ''service'' JNull)
                                        (dict_get kvs ''query'' (JStr []))))
                         (isoformat \<lparr>wall = clock - d, tzoffset = None\<rparr>) (isoformat (utcnow clock))
                         (dict_get kvs ''limit'' (JInt 50)))"
    using service timerange ne nonempty r
    by (simp add: search_logs_with_timerange_def Let_def)
  show ?thesis
    using r h by (simp add: utcnow_def)
qed

theorem timerange_window_duration_witness:
  "search_logs_with_timerange opsight_search_logs no_repr 63839707200000000
     (JObj [(''service'', JStr ''my-app''), (''timerange'', JStr ''1h''), (''limit'', JInt 5)]) =
   Post SearchV2
     (JObj [(''filter'', JObj [(''query'', JStr ''service:my-app''),
                               (''from'', JStr ''2024-01-01T11:00:00''),
                               (''to'', JStr ''2024-01-01T12:00:00'')]),
            (''sort'', JStr ''-timestamp''),
            (''page'', JObj [(''limit'', JInt 5)])])
   \<and> resolve_timerange 63839707200000000 (JStr ''1h'') =
       Inr (\<lparr>wall = 63839703600000000, tzoffset = None\<rparr>, utcnow 63839707200000000)"
proof -
  let ?kvs = "[(''service'', JStr ''my-app''), (''timerange'', JStr ''1h''), (''limit'', JInt 5)]"
  have a: "(''1h'', 3600000000) \<in> {(''15m'', 900000000), (''30m'', 1800000000), (''1h'', 3600000000),
                        (''4h'', 14400000000), (''24h'', 86400000000), (''1d'', 86400000000),
                        (''7d'', 604800000000::int)}" by simp
  have b: "(3600000000::int) \<le> 63839707200000000" by simp
  have c: "(63839707200000000::int) < max_wall" by (simp add: td_defs)
  have d: "truthy (dict_get ?kvs ''service'' JNull)" by (simp add: dict_get_def)
  have e: "dict_get ?kvs ''timerange'' JNull = JStr ''1h''" by (simp add: dict_get_def)
  from timerange_window_duration [OF a b c d e, of opsight_search_logs no_repr]
  obtain s t where r: "resolve_timerange 63839707200000000 (JStr ''1h'') = Inr (s, t)"
    and t: "t = utcnow 63839707200000000"
    and w: "wall t - wall s = 3600000000"
    and z: "tzoffset s = None"
    and h: "search_logs_with_timerange opsight_search_logs no_repr 63839707200000000 (JObj ?kvs) =
             dispatch (opsight_search_logs (JStr (build_query no_repr (dict_get ?kvs ''service'' JNull)
                                        (dict_get ?kvs ''query'' (JStr []))))
                         (isoformat s) (isoformat t)
                         (dict_get ?kvs ''limit'' (JInt 50)))"
    by blast
  have s: "s = \<lparr>wall = 63839703600000000, tzoffset = None\<rparr>"
    using t w z by (cases s) (simp add: utcnow_def)
  show ?thesis
    using r h unfolding s t
    by (simp add: dict_get_def build_query_def opsight_search_logs_def dispatch_def utcnow_def
        iso_defs td_defs Let_def)
qed

section \<open>Unknown relative tokens\<close>

lemma unknown_token_not_in_map:
  assumes "tok \<notin> {''15m'', ''30m'', ''1h'', ''4h'', ''24h'', ''1d'', ''7d''}"
  shows "map_of timerange_map tok = None"
  using assms by (simp add: timerange_map_def)

lemma resolve_timerange_unknown:
  assumes "map_of timerange_map tok = None"
  shows "resolve_timerange clock (JStr tok) = Inl InvalidTimerange"
  using assms by (simp add: resolve_timerange_def Let_def)

lemma resolve_timerange_outside:
  assumes "\<forall>tok. v = JStr tok \<longrightarrow> map_of timerange_map tok = None"
  shows "\<exists>f. resolve_timerange clock v = Inl f"
  using assms by (cases v) (simp_all add: resolve_timerange_def Let_def)

lemma timerange_handler_outside_no_post:
  assumes "\<forall>tok. dict_get kvs ''timerange'' JNull = JStr tok \<longrightarrow> map_of timerange_map tok = None"
  shows "\<not> is_post (search_logs_with_timerange client repr clock (JObj kvs))"
proof -
  obtain f where "resolve_timerange clock (dict_get kvs ''timerange'' JNull) = Inl f"
    using resolve_timerange_outside [OF assms] by blast
  then show ?thesis
    by (simp add: search_logs_with_timerange_def Let_def)
qed

lemma resolve_timerange_hashable:
  assumes "\<forall>tok. v = JStr tok \<longrightarrow> map_of timerange_map tok = None" and "hashable v"
  shows "resolve_timerange clock v = Inl InvalidTimerange"
  using assms by (cases v) (simp_all add: resolve_timerange_def Let_def)

text \<open>
  C2 (amended). Let the \<^verbatim>\<open>timerange\<close> value of a JSON-object body be anything other than
  one of the seven tokens (a missing key counts as \<^verbatim>\<open>None\<close>). Then the relative route
  never reaches the backend, and:
  \<^item> when the service and the value are truthy and the value is hashable (a non-empty
    string, a non-zero number, \<^verbatim>\<open>true\<close>), the answer is the 400 "Invalid timerange" with
    the list of supported values;
  \<^item> when the body is not empty and the service or the value is falsy (absent, \<^verbatim>\<open>null\<close>,
    the empty string, 0, \<^verbatim>\<open>false\<close>, an empty list or dict), the answer is the 400
    "Missing required parameters: service, timerange";
  \<^item> the empty body \<^verbatim>\<open>{}\<close> is answered with the 400 "JSON payload required".
\<close>

theorem unknown_token_rejected:
  assumes unknown: "v \<notin> JStr ` {''15m'', ''30m'', ''1h'', ''4h'', ''24h'', ''1d'', ''7d''}"
    and timerange: "dict_get kvs ''timerange'' JNull = v"
  shows "\<not> is_post (search_logs_with_timerange client repr clock (JObj kvs))
       \<and> (truthy (dict_get kvs ''service'' JNull) \<and> truthy v \<and> hashable v \<longrightarrow>
            search_logs_with_timerange client repr clock (JObj kvs) = Fail InvalidTimerange)
       \<and> (kvs \<noteq> [] \<and> (\<not> truthy (dict_get kvs ''service'' JNull) \<or> \<not> truthy v) \<longrightarrow>
            search_logs_with_timerange client repr clock (JObj kvs) =
              Fail (MissingParameters [''service'', ''timerange'']))
       \<and> (kvs = [] \<longrightarrow>
            search_logs_with_timerange client repr clock (JObj kvs) = Fail PayloadRequired)
       \<and> http_status InvalidTimerange = 400
       \<and> http_status (MissingParameters [''service'', ''timerange'']) = 400
       \<and> http_status PayloadRequired = 400
       \<and> error_msg InvalidTimerange =
            ''Invalid timerange. Supported values: ['1h', '30m', '1d', '7d', '15m', '4h', '24h']''
       \<and> error_msg (MissingParameters [''service'', ''timerange'']) =
            ''Missing required parameters: service, timerange''
       \<and> error_msg PayloadRequired = ''JSON payload required''"
proof -
  have m': "map_of timerange_map tok = None" if "v = JStr tok" for tok
    using unknown that by (intro unknown_token_not_in_map) auto
  have m: "\<forall>tok. v = JStr tok \<longrightarrow> map_of timerange_map tok = None"
    using m' by simp
  have a: "\<not> is_post (search_logs_with_timerange client repr clock (JObj kvs))"
    using timerange m by (intro timerange_handler_outside_no_post) simp
  have b: "search_logs_with_timerange client repr clock (JObj kvs) = Fail InvalidTimerange"
    if "truthy (dict_get kvs ''service'' JNull)" and "truthy v" and "hashable v"
  proof -
    have "kvs \<noteq> []"
      using timerange that(2) by (auto simp: dict_get_def)
    then show ?thesis
      using that timerange resolve_timerange_hashable [OF m that(3), of clock]
      by (simp add: search_logs_with_timerange_def Let_def)
  qed
  have c: "search_logs_with_timerange client repr clock (JObj kvs) =
             Fail (MissingParameters [''service'', ''timerange''])"
    if "kvs \<noteq> []" and "\<not> truthy (dict_get kvs ''service'' JNull) \<or> \<not> truthy v"
    using that timerange by (auto simp: search_logs_with_timerange_def Let_def)
  have d: "search_logs_with_timerange client repr clock (JObj kvs) = Fail PayloadRequired"
    if "kvs = []"
    using that by (simp add: search_logs_with_timerange_def)
  show ?thesis
    using a b c d by simp
qed

theorem unknown_token_rejected_witness:
  "search_logs_with_timerange querier_search_logs no_repr 63839707200000000
     (JObj [(''service'', JStr ''my-app''), (''timerange'', JStr ''9x'')]) = Fail InvalidTimerange
   \<and> search_logs_with_timerange querier_search_logs no_repr 63839707200000000
     (JObj [(''service'', JStr ''my-app''), (''timerange'', JInt 5)]) = Fail InvalidTimerange
   \<and> search_logs_with_timerange querier_search_logs no_repr 63839707200000000
     (JObj [(''timerange'', JStr ''9x'')]) = Fail (MissingParameters [''service'', ''timerange''])
   \<and> search_logs_with_timerange querier_search_logs no_repr 63839707200000000
     (JObj []) = Fail PayloadRequired"
proof -
  let ?k1 = "[(''service'', JStr ''my-app''), (''timerange'', JStr ''9x'')]"
  let ?k2 = "[(''service'', JStr ''my-app''), (''timerange'', JInt 5)]"
  let ?k3 = "[(''timerange'', JStr ''9x'')]"
  let ?k4 = "[] :: (string \<times> json) list"
  have u1: "JStr ''9x'' \<notin> JStr ` {''15m'', ''30m'', ''1h'', ''4h'', ''24h'', ''1d'', ''7d''}"
    by simp
  have u2: "JInt 5 \<notin> JStr ` {''15m'', ''30m'', ''1h'', ''4h'', ''24h'', ''1d'', ''7d''}"
    by auto
  have u4: "JNull \<notin> JStr ` {''15m'', ''30m'', ''1h'', ''4h'', ''24h'', ''1d'', ''7d''}"
    by auto
  have t1: "dict_get ?k1 ''timerange'' JNull = JStr ''9x''" by (simp add: dict_get_def)
  have t2: "dict_get ?k2 ''timerange'' JNull = JInt 5" by (simp add: dict_get_def)
  have t3: "dict_get ?k3 ''timerange'' JNull = JStr ''9x''" by (simp add: dict_get_def)
  have t4: "dict_get ?k4 ''timerange'' JNull = JNull" by (simp add: dict_get_def)
  have p1: "truthy (dict_get ?k1 ''service'' JNull) \<and> truthy (JStr ''9x'') \<and> hashable (JStr ''9x'')"
    by (simp add: dict_get_def)
  have p2: "truthy (dict_get ?k2 ''service'' JNull) \<and> truthy (JInt 5) \<and> hashable (JInt 5)"
    by (simp add: dict_get_def)
  have p3: "?k3 \<noteq> [] \<and> (\<not> truthy (dict_get ?k3 ''service'' JNull) \<or> \<not> truthy (JStr ''9x''))"
    by (simp add: dict_get_def)
  have p4: "?k4 = []" by simp
  note r1 = unknown_token_rejected [OF u1 t1, of querier_search_logs no_repr 63839707200000000,
      THEN conjunct2, THEN conjunct1, THEN mp, OF p1]
  note r2 = unknown_token_rejected [OF u2 t2, of querier_search_logs no_repr 63839707200000000,
      THEN conjunct2, THEN conjunct1, THEN mp, OF p2]
  note r3 = unknown_token_rejected [OF u1 t3, of querier_search_logs no_repr 63839707200000000,
      THEN conjunct2, THEN conjunct2, THEN conjunct1, THEN mp, OF p3]
  note r4 = unknown_token_rejected [OF u4 t4, of querier_search_logs no_repr 63839707200000000,
      THEN conjunct2, THEN conjunct2, THEN conjunct2, THEN conjunct1, THEN mp, OF p4]
  show ?thesis
    using r1 r2 r3 r4 by (intro conjI)
qed

text \<open>
  The empty string is a token outside the enumeration, and the request carrying it is
  answered with the missing-parameters message, not the invalid-timerange one.
\<close>

theorem unknown_token_counterexample:
  "JStr [] \<notin> JStr ` {''15m'', ''30m'', ''1h'', ''4h'', ''24h'', ''1d'', ''7d''}
   \<and> search_logs_with_timerange opsight_search_logs no_repr 63839707200000000
       (JObj [(''service'', JStr ''my-app''), (''timerange'', JStr [])]) =
     Fail (MissingParameters [''service'', ''timerange''])
   \<and> error_msg (MissingParameters [''service'', ''timerange'']) =
       ''Missing required parameters: service, timerange''
   \<and> Fail (MissingParameters [''service'', ''timerange'']) \<noteq> Fail InvalidTimerange"
  by (simp add: search_logs_with_timerange_def dict_get_def)

section \<open>The page limit\<close>

lemma opsight_client_limit:
  "dispatch (opsight_search_logs q s e (JInt n)) =
     Post SearchV2
       (JObj [(''filter'', JObj [(''query'', q), (''from'', JStr s), (''to'', JStr e)]),
              (''sort'', JStr ''-timestamp''),
              (''page'', JObj [(''limit'', JInt (min n 1000))])])"
  by (simp add: opsight_search_logs_def dispatch_def)

lemma querier_client_limit:
  "sent_limit (dispatch (querier_search_logs q s e l)) = Some l"
  by (simp add: querier_search_logs_def dispatch_def)

lemma timerange_handler_accepted:
  assumes "kvs \<noteq> []" and "truthy (dict_get kvs ''service'' JNull)"
    and "truthy (dict_get kvs ''timerange'' JNull)"
    and "resolve_timerange clock (dict_get kvs ''timerange'' JNull) = Inr (s, e)"
  shows "search_logs_with_timerange client repr clock (JObj kvs) =
           dispatch (client (JStr (build_query repr (dict_get kvs ''service'' JNull)
                                      (dict_get kvs ''query'' (JStr []))))
                       (isoformat s) (isoformat e) (dict_get kvs ''limit'' (JInt 50)))"
  using assms by (simp add: search_logs_with_timerange_def Let_def)

lemma timerange_handler_refused:
  assumes "\<not> (kvs \<noteq> [] \<and> truthy (dict_get kvs ''service'' JNull)
             \<and> truthy (dict_get kvs ''timerange'' JNull)
             \<and> (\<exists>w. resolve_timerange clock (dict_get kvs ''timerange'' JNull) = Inr w))"
  shows "\<not> is_post (search_logs_with_timerange client repr clock (JObj kvs))"
  using assms
  by (auto simp: search_logs_with_timerange_def Let_def split: sum.splits)

lemma opsight_search_accepted:
  assumes "opsight_window parse clock kvs = Inr (s, e)"
  shows "opsight_search parse clock (JObj kvs) =
           dispatch (opsight_search_logs (dict_get kvs ''query'' (JStr ''datadog-agent''))
                       (isoformat s @ ''Z'') (isoformat e @ ''Z'')
                       (dict_get kvs ''limit'' (JInt 5)))"
  using assms by (cases "kvs = []") (simp_all add: opsight_search_def or_empty_def Let_def)

lemma opsight_search_refused:
  assumes "\<not> (\<exists>w. opsight_window parse clock kvs = Inr w)"
  shows "\<not> is_post (opsight_search parse clock (JObj kvs))"
  using assms
  by (cases "kvs = []")
    (auto simp: opsight_search_def or_empty_def Let_def split: sum.splits)

text \<open>
  C3 (amended). In opsight.py, whichever of the two search handlers received the request,
  let the requested limit (the body's \<^verbatim>\<open>limit\<close>, or the handler's default) be an integer
  \<open>n\<close>. The handler reaches the backend exactly when its other checks pass (for the
  relative route: a non-empty body, a truthy service and a token of the table with a
  window in range; for the raw-query route: a window that resolves, by default or by
  parsing), so no limit is ever a reason for rejection. When it reaches the backend, the
  page limit on the wire is \<open>min n 1000\<close>: never above 1000, equal to 1000 for a request
  above 1000, and positive when \<open>n\<close> is. Nothing raises a limit that is zero or negative.
\<close>

theorem opsight_limit_clamped:
  fixes kvs :: "(string \<times> json) list" and n :: int
  defines "relative \<equiv> search_logs_with_timerange opsight_search_logs"
  shows "(dict_get kvs ''limit'' (JInt 50) = JInt n \<longrightarrow>
            (is_post (relative repr clock (JObj kvs)) \<longleftrightarrow>
               kvs \<noteq> [] \<and> truthy (dict_get kvs ''service'' JNull)
               \<and> truthy (dict_get kvs ''timerange'' JNull)
               \<and> (\<exists>w. resolve_timerange clock (dict_get kvs ''timerange'' JNull) = Inr w))
          \<and> (is_post (relative repr clock (JObj kvs)) \<longrightarrow>
               sent_limit (relative repr clock (JObj kvs)) = Some (JInt (min n 1000))))
       \<and> (dict_get kvs ''limit'' (JInt 5) = JInt n \<longrightarrow>
            (is_post (opsight_search parse clock (JObj kvs)) \<longleftrightarrow>
               (\<exists>w. opsight_window parse clock kvs = Inr w))
          \<and> (is_post (opsight_search parse clock (JObj kvs)) \<longrightarrow>
               sent_limit (opsight_search parse clock (JObj kvs)) = Some (JInt (min n 1000))))
       \<and> min n 1000 \<le> 1000
       \<and> (1000 < n \<longrightarrow> min n 1000 = 1000)
       \<and> (0 < n \<longrightarrow> 0 < min n 1000)"
proof -
  let ?ok = "kvs \<noteq> [] \<and> truthy (dict_get kvs ''service'' JNull)
               \<and> truthy (dict_get kvs ''timerange'' JNull)
               \<and> (\<exists>w. resolve_timerange clock (dict_get kvs ''timerange'' JNull) = Inr w)"
  have r1: "is_post (relative repr clock (JObj kvs))
          \<and> sent_limit (relative repr clock (JObj kvs)) = Some (JInt (min n 1000))"
    if l: "dict_get kvs ''limit'' (JInt 50) = JInt n" and ok: "?ok"
  proof -
    obtain s e where w: "resolve_timerange clock (dict_get kvs ''timerange'' JNull) = Inr (s, e)"
      using ok by auto
    have "relative repr clock (JObj kvs) =
            dispatch (opsight_search_logs (JStr (build_query repr (dict_get kvs ''service'' JNull)
                                      (dict_get kvs ''query'' (JStr []))))
                       (isoformat s) (isoformat e) (JInt n))"
      unfolding relative_def using timerange_handler_accepted [of kvs clock s e] ok w l by simp
    then show ?thesis
      by (simp add: opsight_client_limit)
  qed
  have r2: "\<not> is_post (relative repr clock (JObj kvs))" if "\<not> ?ok"
    unfolding relative_def using that by (rule timerange_handler_refused)
  have s1: "is_post (opsight_search parse clock (JObj kvs))
          \<and> sent_limit (opsight_search parse clock (JObj kvs)) = Some (JInt (min n 1000))"
    if l: "dict_get kvs ''limit'' (JInt 5) = JInt n"
      and ok: "\<exists>w. opsight_window parse clock kvs = Inr w"
  proof -
    obtain s e where w: "opsight_window parse clock kvs = Inr (s, e)"
      using ok by auto
    show ?thesis
      by (simp add: opsight_search_accepted [OF w] l opsight_client_limit)
  qed
  have s2: "\<not> is_post (opsight_search parse clock (JObj kvs))"
    if "\<not> (\<exists>w. opsight_window parse clock kvs = Inr w)"
    using that by (rule opsight_search_refused)
  have rel: "dict_get kvs ''limit'' (JInt 50) = JInt n \<longrightarrow>
            (is_post (relative repr clock (JObj kvs)) \<longleftrightarrow> ?ok)
          \<and> (is_post (relative repr clock (JObj kvs)) \<longrightarrow>
               sent_limit (relative repr clock (JObj kvs)) = Some (JInt (min n 1000)))"
    using r1 r2 by blast
  have raw: "dict_get kvs ''limit'' (JInt 5) = JInt n \<longrightarrow>
            (is_post (opsight_search parse clock (JObj kvs)) \<longleftrightarrow>
               (\<exists>w. opsight_window parse clock kvs = Inr w))
          \<and> (is_post (opsight_search parse clock (JObj kvs)) \<longrightarrow>
               sent_limit (opsight_search parse clock (JObj kvs)) = Some (JInt (min n 1000)))"
    using s1 s2 by blast
  have arith: "min n 1000 \<le> 1000 \<and> (1000 < n \<longrightarrow> min n 1000 = 1000) \<and> (0 < n \<longrightarrow> 0 < min n 1000)"
    by simp
  show ?thesis
    using rel raw arith by (intro conjI) (rule rel, rule raw, simp_all)
qed

theorem opsight_limit_clamped_witness:
  "sent_limit (search_logs_with_timerange opsight_search_logs no_repr 63839707200000000
     (JObj [(''service'', JStr ''my-app''), (''timerange'', JStr ''1h''), (''limit'', JInt 5000)]))
   = Some (JInt 1000)
   \<and> sent_limit (opsight_search parse_new_year 63839707200000000
     (JObj [(''start_time'', JStr ''2024-01-01T00:00:00Z''),
            (''end_time'', JStr ''2024-01-01T00:00:00Z''), (''limit'', JInt 5000)]))
   = Some (JInt 1000)"
proof -
  let ?k1 = "[(''service'', JStr ''my-app''), (''timerange'', JStr ''1h''), (''limit'', JInt 5000)]"
  let ?k2 = "[(''start_time'', JStr ''2024-01-01T00:00:00Z''),
              (''end_time'', JStr ''2024-01-01T00:00:00Z''), (''limit'', JInt 5000)]"
  let ?ny = "\<lparr>wall = 63839664000000000, tzoffset = Some 0\<rparr>"
  have l1: "dict_get ?k1 ''limit'' (JInt 50) = JInt 5000" by (simp add: dict_get_def)
  have l2: "dict_get ?k2 ''limit'' (JInt 5) = JInt 5000" by (simp add: dict_get_def)
  have w1: "resolve_timerange 63839707200000000 (dict_get ?k1 ''timerange'' JNull) =
              Inr (\<lparr>wall = 63839703600000000, tzoffset = None\<rparr>, utcnow 63839707200000000)"
    by (simp add: dict_get_def resolve_timerange_def timerange_map_def dt_sub_def dt_add_def
        utcnow_def td_defs Let_def)
  have ok1: "?k1 \<noteq> [] \<and> truthy (dict_get ?k1 ''service'' JNull)
               \<and> truthy (dict_get ?k1 ''timerange'' JNull)
               \<and> (\<exists>w. resolve_timerange 63839707200000000 (dict_get ?k1 ''timerange'' JNull) = Inr w)"
    using w1 by (simp add: dict_get_def)
  have w2: "opsight_window parse_new_year 63839707200000000 ?k2 = Inr (?ny, ?ny)"
    by (simp add: opsight_window_def has_key_def dict_get_def parse_window_def
        parse_timestamp_def replace_Z_def parse_new_year_def)
  have ok2: "\<exists>w. opsight_window parse_new_year 63839707200000000 ?k2 = Inr w"
    using w2 by simp
  note t1 = opsight_limit_clamped [of ?k1 5000 no_repr 63839707200000000 parse_new_year,
      THEN conjunct1, THEN mp, OF l1]
  note t2 = opsight_limit_clamped [of ?k2 5000 no_repr 63839707200000000 parse_new_year,
      THEN conjunct2, THEN conjunct1, THEN mp, OF l2]
  have p1: "is_post (search_logs_with_timerange opsight_search_logs no_repr 63839707200000000
              (JObj ?k1))"
    using t1 [THEN conjunct1] ok1 by (rule iffD2)
  have p2: "is_post (opsight_search parse_new_year 63839707200000000 (JObj ?k2))"
    using t2 [THEN conjunct1] ok2 by (rule iffD2)
  have s1: "sent_limit (search_logs_with_timerange opsight_search_logs no_repr 63839707200000000
              (JObj ?k1)) = Some (JInt (min 5000 1000))"
    using t1 [THEN conjunct2] p1 by (rule mp)
  have s2: "sent_limit (opsight_search parse_new_year 63839707200000000 (JObj ?k2))
              = Some (JInt (min 5000 1000))"
    using t2 [THEN conjunct2] p2 by (rule mp)
  show ?thesis
    using s1 s2 by simp
qed

text \<open>A requested limit of 0 goes out as 0, which is not a positive page limit.\<close>

theorem opsight_limit_counterexample:
  "sent_limit (search_logs_with_timerange opsight_search_logs no_repr 63839707200000000
     (JObj [(''service'', JStr ''my-app''), (''timerange'', JStr ''1h''), (''limit'', JInt 0)]))
   = Some (JInt 0)
   \<and> \<not> (0::int) < 0"
  by (simp add: search_logs_with_timerange_def dict_get_def resolve_timerange_def
      timerange_map_def dt_sub_def dt_add_def utcnow_def td_defs opsight_search_logs_def
      dispatch_def Let_def)

section \<open>The instants on the wire\<close>

text \<open>
  C4. The relative route at 2024-01-01T12:00:00 UTC with the token \<^verbatim>\<open>1h\<close>: the two instants
  handed to the client are the bare \<open>isoformat\<close> of naive datetimes, with neither a
  \<^verbatim>\<open>Z\<close> nor an offset at the end.
\<close>

theorem timerange_instants_bare:
  "sent_window (search_logs_with_timerange opsight_search_logs no_repr 63839707200000000
     (JObj [(''service'', JStr ''my-app''), (''timerange'', JStr ''1h'')]))
   = Some (JStr ''2024-01-01T11:00:00'', JStr ''2024-01-01T12:00:00'')"
  by (simp add: search_logs_with_timerange_def dict_get_def resolve_timerange_def
      timerange_map_def dt_sub_def dt_add_def utcnow_def td_defs opsight_search_logs_def
      dispatch_def iso_defs Let_def)

text \<open>The default branch of the raw-query route at the same clock reading appends \<^verbatim>\<open>Z\<close>.\<close>

lemma default_instants_suffixed:
  "sent_window (opsight_search parse 63839707200000000 JNull)
   = Some (JStr ''2024-01-01T11:00:00Z'', JStr ''2024-01-01T11:05:00Z'')"
  by (simp add: opsight_search_def or_empty_def opsight_window_def default_window_def
      has_key_def dict_get_def dt_sub_def dt_add_def utcnow_def td_defs opsight_search_logs_def
      dispatch_def iso_defs Let_def)

text \<open>
  The absolute branch of the raw-query route appends \<^verbatim>\<open>Z\<close> after the offset that
  \<open>isoformat\<close> already printed.
\<close>

lemma absolute_instants_double_suffix:
  "sent_window (opsight_search parse_new_year 63839707200000000
     (JObj [(''start_time'', JStr ''2024-01-01T00:00:00Z''),
            (''end_time'', JStr ''2024-01-01T00:00:00Z'')]))
   = Some (JStr ''2024-01-01T00:00:00+00:00Z'', JStr ''2024-01-01T00:00:00+00:00Z'')"
  by (simp add: opsight_search_def or_empty_def opsight_window_def parse_window_def
      parse_timestamp_def replace_Z_def parse_new_year_def
      has_key_def dict_get_def opsight_search_logs_def
      dispatch_def isoformat_new_year Let_def)

section \<open>Namespacing of submitted entries\<close>

lemma process_logs_valid:
  assumes "\<forall>log \<in> set entries. has_key log ''message''"
  shows "process_logs repr (map JObj entries) = Inr (map (namespace_service repr) entries)"
  using assms by (induction entries) simp_all

lemma namespace_service_absent:
  assumes "map_of log ''service'' = None"
  shows "map_of (namespace_service repr log) ''service'' = Some (JStr ''opsight'')"
  using assms by (simp add: namespace_service_def update_conv')

lemma namespace_service_other:
  assumes "map_of log ''service'' = Some v" and "v \<noteq> JStr ''opsight''"
  shows "map_of (namespace_service repr log) ''service'' = Some (JStr (''opsight.'' @ py_str repr v))"
  using assms by (simp add: namespace_service_def update_conv')

lemma namespace_service_same:
  assumes "map_of log ''service'' = Some (JStr ''opsight'')"
  shows "namespace_service repr log = log"
  using assms by (simp add: namespace_service_def)

lemma namespace_service_other_keys:
  assumes "k \<noteq> ''service''"
  shows "map_of (namespace_service repr log) k = map_of log k"
  using assms by (simp add: namespace_service_def update_conv' split: option.splits)

lemma stamp_other_keys:
  assumes "k \<noteq> ''timestamp''"
  shows "map_of (stamp clock log) k = map_of log k"
  using assms by (simp add: stamp_def update_conv')

lemma stamp_present:
  assumes "has_key log ''timestamp''"
  shows "stamp clock log = log"
  using assms by (simp add: stamp_def)

lemma submit_logs_valid:
  assumes logs: "map_of kvs ''logs'' = Some l"
    and batch: "(case l of JArr xs \<Rightarrow> xs | _ \<Rightarrow> [l]) = map JObj entries"
    and msg: "\<forall>log \<in> set entries. has_key log ''message''"
  shows "submit_logs repr clock (JObj kvs) =
           Post Intake (JArr (map (\<lambda>log. JObj (stamp clock (namespace_service repr log))) entries))"
proof -
  have "kvs \<noteq> []"
    using logs by auto
  then show ?thesis
    using logs batch process_logs_valid [OF msg, of repr]
    by (simp add: submit_logs_def submit_log_def Let_def comp_def)
qed

lemma entry_on_wire:
  fixes log :: "(string \<times> json) list" and clock :: int and repr :: "json \<Rightarrow> string"
  defines "wire \<equiv> stamp clock (namespace_service repr log)"
  shows "(map_of log ''service'' = None \<longrightarrow> map_of wire ''service'' = Some (JStr ''opsight''))
       \<and> (\<forall>s. map_of log ''service'' = Some (JStr s) \<and> s \<noteq> ''opsight'' \<longrightarrow>
              map_of wire ''service'' = Some (JStr (''opsight.'' @ s)))
       \<and> (\<forall>v. map_of log ''service'' = Some v \<and> v \<noteq> JStr ''opsight'' \<longrightarrow>
              map_of wire ''service'' = Some (JStr (''opsight.'' @ py_str repr v)))
       \<and> (map_of log ''service'' = Some (JStr ''opsight'') \<longrightarrow>
              map_of wire ''service'' = Some (JStr ''opsight'') \<and> wire = stamp clock log)
       \<and> (\<forall>k. k \<noteq> ''service'' \<and> k \<noteq> ''timestamp'' \<longrightarrow> map_of wire k = map_of log k)"
proof -
  have svc: "map_of wire ''service'' = map_of (namespace_service repr log) ''service''"
    unfolding wire_def by (rule stamp_other_keys) simp
  have a: "map_of wire ''service'' = Some (JStr ''opsight'')" if "map_of log ''service'' = None"
    unfolding svc using that by (rule namespace_service_absent)
  have c: "map_of wire ''service'' = Some (JStr (''opsight.'' @ py_str repr v))"
    if "map_of log ''service'' = Some v" and "v \<noteq> JStr ''opsight''" for v
    unfolding svc using that by (rule namespace_service_other)
  have b: "map_of wire ''service'' = Some (JStr (''opsight.'' @ s))"
    if "map_of log ''service'' = Some (JStr s)" and "s \<noteq> ''opsight''" for s
    using c [of "JStr s"] that by simp
  have d: "map_of wire ''service'' = Some (JStr ''opsight'') \<and> wire = stamp clock log"
    if "map_of log ''service'' = Some (JStr ''opsight'')"
    using that svc by (simp add: wire_def namespace_service_same)
  have e: "map_of wire k = map_of log k" if "k \<noteq> ''service''" and "k \<noteq> ''timestamp''" for k
    unfolding wire_def using that by (simp add: stamp_other_keys namespace_service_other_keys)
  show ?thesis
    using a b c d e by blast
qed

text \<open>
  C5. A batch all of whose entries are objects with a \<^verbatim>\<open>message\<close> is posted to the intake,
  entry by entry in order. In the entry on the wire the \<^verbatim>\<open>service\<close> is \<^verbatim>\<open>opsight\<close> when
  the submitted entry had none, \<^verbatim>\<open>opsight.\<close> followed by the original when the original was
  another value (for a string, the string itself), and the entry is the submitted one
  (apart from the client's stamping of a missing \<^verbatim>\<open>timestamp\<close>) when its service already
  was \<^verbatim>\<open>opsight\<close>. No key other than \<^verbatim>\<open>service\<close> and \<^verbatim>\<open>timestamp\<close> changes.
\<close>

theorem submitted_service_namespaced:
  assumes logs: "map_of kvs ''logs'' = Some l"
    and batch: "(case l of JArr xs \<Rightarrow> xs | _ \<Rightarrow> [l]) = map JObj entries"
    and msg: "\<forall>log \<in> set entries. has_key log ''message''"
  shows "\<exists>sent.
           submit_logs repr clock (JObj kvs) = Post Intake (JArr (map JObj sent))
         \<and> length sent = length entries
         \<and> (\<forall>i < length entries.
               (map_of (entries ! i) ''service'' = None \<longrightarrow>
                  map_of (sent ! i) ''service'' = Some (JStr ''opsight''))
             \<and> (\<forall>s. map_of (entries ! i) ''service'' = Some (JStr s) \<and> s \<noteq> ''opsight'' \<longrightarrow>
                  map_of (sent ! i) ''service'' = Some (JStr (''opsight.'' @ s)))
             \<and> (\<forall>v. map_of (entries ! i) ''service'' = Some v \<and> v \<noteq> JStr ''opsight'' \<longrightarrow>
                  map_of (sent ! i) ''service'' = Some (JStr (''opsight.'' @ py_str repr v)))
             \<and> (map_of (entries ! i) ''service'' = Some (JStr ''opsight'') \<longrightarrow>
                  map_of (sent ! i) ''service'' = Some (JStr ''opsight'')
                \<and> sent ! i = stamp clock (entries ! i))
             \<and> (\<forall>k. k \<noteq> ''service'' \<and> k \<noteq> ''timestamp'' \<longrightarrow>
                  map_of (sent ! i) k = map_of (entries ! i) k))"
proof -
  let ?sent = "map (\<lambda>log. stamp clock (namespace_service repr log)) entries"
  have post: "submit_logs repr clock (JObj kvs) = Post Intake (JArr (map JObj ?sent))"
    using submit_logs_valid [OF logs batch msg, of repr clock] by (simp add: comp_def)
  have len: "length ?sent = length entries"
    by simp
  have each: "\<forall>i < length entries.
               (map_of (entries ! i) ''service'' = None \<longrightarrow>
                  map_of (?sent ! i) ''service'' = Some (JStr ''opsight''))
             \<and> (\<forall>s. map_of (entries ! i) ''service'' = Some (JStr s) \<and> s \<noteq> ''opsight'' \<longrightarrow>
                  map_of (?sent ! i) ''service'' = Some (JStr (''opsight.'' @ s)))
             \<and> (\<forall>v. map_of (entries ! i) ''service'' = Some v \<and> v \<noteq> JStr ''opsight'' \<longrightarrow>
                  map_of (?sent ! i) ''service'' = Some (JStr (''opsight.'' @ py_str repr v)))
             \<and> (map_of (entries ! i) ''service'' = Some (JStr ''opsight'') \<longrightarrow>
                  map_of (?sent ! i) ''service'' = Some (JStr ''opsight'')
                \<and> ?sent ! i = stamp clock (entries ! i))
             \<and> (\<forall>k. k \<noteq> ''service'' \<and> k \<noteq> ''timestamp'' \<longrightarrow>
                  map_of (?sent ! i) k = map_of (entries ! i) k)"
  proof (rule allI, rule impI)
    fix i
    assume i: "i < length entries"
    have s: "?sent ! i = stamp clock (namespace_service repr (entries ! i))"
      using i by simp
    show "(map_of (entries ! i) ''service'' = None \<longrightarrow>
                  map_of (?sent ! i) ''service'' = Some (JStr ''opsight''))
             \<and> (\<forall>s. map_of (entries ! i) ''service'' = Some (JStr s) \<and> s \<noteq> ''opsight'' \<longrightarrow>
                  map_of (?sent ! i) ''service'' = Some (JStr (''opsight.'' @ s)))
             \<and> (\<forall>v. map_of (entries ! i) ''service'' = Some v \<and> v \<noteq> JStr ''opsight'' \<longrightarrow>
                  map_of (?sent ! i) ''service'' = Some (JStr (''opsight.'' @ py_str repr v)))
             \<and> (map_of (entries ! i) ''service'' = Some (JStr ''opsight'') \<longrightarrow>
                  map_of (?sent ! i) ''service'' = Some (JStr ''opsight'')
                \<and> ?sent ! i = stamp clock (entries ! i))
             \<and> (\<forall>k. k \<noteq> ''service'' \<and> k \<noteq> ''timestamp'' \<longrightarrow>
                  map_of (?sent ! i) k = map_of (entries ! i) k)"
      unfolding s by (rule entry_on_wire)
  qed
  show ?thesis
    apply (rule exI [of _ ?sent])
    apply (rule conjI, rule post)
    apply (rule conjI, rule len)
    apply (rule each)
    done
qed

theorem submitted_service_namespaced_witness:
  "\<exists>sent.
     submit_logs no_repr 63839707200000000
       (JObj [(''logs'', JArr [JObj [(''message'', JStr ''a''), (''service'', JStr ''foo'')],
                               JObj [(''message'', JStr ''b'')],
                               JObj [(''service'', JStr ''opsight''), (''message'', JStr ''c'')]])])
       = Post Intake (JArr (map JObj sent))
   \<and> length sent = 3
   \<and> map_of (sent ! 0) ''service'' = Some (JStr ''opsight.foo'')
   \<and> map_of (sent ! 1) ''service'' = Some (JStr ''opsight'')
   \<and> map_of (sent ! 2) ''service'' = Some (JStr ''opsight'')"
proof -
  let ?e0 = "[(''message'', JStr ''a''), (''service'', JStr ''foo'')]"
  let ?e1 = "[(''message'', JStr ''b'')]"
  let ?e2 = "[(''service'', JStr ''opsight''), (''message'', JStr ''c'')]"
  let ?entries = "[?e0, ?e1, ?e2]"
  let ?l = "JArr [JObj ?e0, JObj ?e1, JObj ?e2]"
  let ?kvs = "[(''logs'', ?l)]"
  have a: "map_of ?kvs ''logs'' = Some ?l" by simp
  have b: "(case ?l of JArr xs \<Rightarrow> xs | _ \<Rightarrow> [?l]) = map JObj ?entries" by simp
  have c: "\<forall>log \<in> set ?entries. has_key log ''message''" by (simp add: has_key_def)
  from submitted_service_namespaced [OF a b c, of no_repr 63839707200000000]
  obtain sent where all: 
    "submit_logs no_repr 63839707200000000 (JObj ?kvs) = Post Intake (JArr (map JObj sent))
     \<and> length sent = length ?entries
     \<and> (\<forall>i < length ?entries.
               (map_of (?entries ! i) ''service'' = None \<longrightarrow>
                  map_of (sent ! i) ''service'' = Some (JStr ''opsight''))
             \<and> (\<forall>s. map_of (?entries ! i) ''service'' = Some (JStr s) \<and> s \<noteq> ''opsight'' \<longrightarrow>
                  map_of (sent ! i) ''service'' = Some (JStr (''opsight.'' @ s)))
             \<and> (\<forall>v. map_of (?entries ! i) ''service'' = Some v \<and> v \<noteq> JStr ''opsight'' \<longrightarrow>
                  map_of (sent ! i) ''service'' = Some (JStr (''opsight.'' @ py_str no_repr v)))
             \<and> (map_of (?entries ! i) ''service'' = Some (JStr ''opsight'') \<longrightarrow>
                  map_of (sent ! i) ''service'' = Some (JStr ''opsight'')
                \<and> sent ! i = stamp 63839707200000000 (?entries ! i))
             \<and> (\<forall>k. k \<noteq> ''service'' \<and> k \<noteq> ''timestamp'' \<longrightarrow>
                  map_of (sent ! i) k = map_of (?entries ! i) k))"
    by (rule exE)
  note post = all [THEN conjunct1]
  note len = all [THEN conjunct2, THEN conjunct1]
  note each = all [THEN conjunct2, THEN conjunct2, rule_format]
  have i0: "(0::nat) < length ?entries" and i1: "(1::nat) < length ?entries"
    and i2: "(2::nat) < length ?entries"
    by simp_all
  have e0: "map_of (sent ! 0) ''service'' = Some (JStr ''opsight.foo'')"
    using each [OF i0, THEN conjunct2, THEN conjunct1, rule_format, of "''foo''"]
    by simp
  have e1: "map_of (sent ! 1) ''service'' = Some (JStr ''opsight'')"
    using each [OF i1, THEN conjunct1] by simp
  have e2: "map_of (sent ! 2) ''service'' = Some (JStr ''opsight'')"
    using each [OF i2, THEN conjunct2, THEN conjunct2, THEN conjunct2, THEN conjunct1]
    by (simp add: stamp_other_keys)
  have l3: "length sent = 3"
    using len by simp
  show ?thesis
    apply (rule exI [of _ sent])
    apply (rule conjI, rule post)
    apply (rule conjI, rule l3)
    apply (rule conjI, rule e0)
    apply (rule conjI, rule e1)
    apply (rule e2)
    done
qed

section \<open>Entries without a message\<close>

lemma process_logs_rejects:
  assumes "\<exists>x \<in> set xs. \<forall>log. x = JObj log \<longrightarrow> \<not> has_key log ''message''"
  shows "process_logs repr xs = Inl MissingMessage \<or> process_logs repr xs = Inl EntryNotObject"
  using assms
proof (induction repr xs rule: process_logs.induct)
  case (2 repr log rest)
  then show ?case
    by (cases "has_key log ''message''") (auto split: sum.splits)
qed simp_all

lemma process_logs_objects:
  assumes "\<forall>x \<in> set xs. \<exists>log. x = JObj log"
  shows "process_logs repr xs \<noteq> Inl EntryNotObject"
  using assms
  by (induction repr xs rule: process_logs.induct) (auto split: sum.splits)

text \<open>
  C6. When the \<^verbatim>\<open>logs\<close> value of a JSON-object body (a list, or a single value taken as a
  one-element batch) holds an entry without a \<^verbatim>\<open>message\<close> key, the handler answers 400
  and never reaches the intake: nothing of the batch is sent. The answer is the
  missing-message error, or the not-an-object error when an entry that is no JSON object
  comes first.
\<close>

theorem batch_without_message_rejected:
  assumes logs: "map_of kvs ''logs'' = Some l"
    and bad: "\<exists>x \<in> set (case l of JArr xs \<Rightarrow> xs | _ \<Rightarrow> [l]).
                \<forall>log. x = JObj log \<longrightarrow> \<not> has_key log ''message''"
  shows "\<not> is_post (submit_logs repr clock (JObj kvs))
       \<and> (\<exists>f. submit_logs repr clock (JObj kvs) = Fail f \<and> http_status f = 400
              \<and> (f = MissingMessage \<or> f = EntryNotObject)
              \<and> ((\<forall>x \<in> set (case l of JArr xs \<Rightarrow> xs | _ \<Rightarrow> [l]). \<exists>log. x = JObj log)
                    \<longrightarrow> f = MissingMessage))"
proof -
  let ?batch = "case l of JArr xs \<Rightarrow> xs | _ \<Rightarrow> [l]"
  have ne: "kvs \<noteq> []"
    using logs by auto
  have h: "submit_logs repr clock (JObj kvs) =
             (case process_logs repr ?batch of Inl f \<Rightarrow> Fail f | Inr logs' \<Rightarrow> submit_log clock logs')"
    using ne logs by (simp add: submit_logs_def Let_def)
  from process_logs_rejects [OF bad, of repr]
  show ?thesis
  proof
    assume "process_logs repr ?batch = Inl MissingMessage"
    then show ?thesis
      using h by simp
  next
    assume e: "process_logs repr ?batch = Inl EntryNotObject"
    then have "\<not> (\<forall>x \<in> set ?batch. \<exists>log. x = JObj log)"
      using process_logs_objects [of ?batch repr] by blast
    then show ?thesis
      using h e by simp
  qed
qed

theorem batch_without_message_rejected_witness:
  "submit_logs no_repr 63839707200000000
     (JObj [(''logs'', JArr [JObj [(''message'', JStr ''a'')], JObj [(''service'', JStr ''foo'')]])])
   = Fail MissingMessage"
proof -
  let ?l = "JArr [JObj [(''message'', JStr ''a'')], JObj [(''service'', JStr ''foo'')]]"
  let ?kvs = "[(''logs'', ?l)]"
  have a: "map_of ?kvs ''logs'' = Some ?l" by simp
  have b: "\<exists>x \<in> set (case ?l of JArr xs \<Rightarrow> xs | _ \<Rightarrow> [?l]).
             \<forall>log. x = JObj log \<longrightarrow> \<not> has_key log ''message''"
    by (simp add: has_key_def)
  have c: "\<forall>x \<in> set (case ?l of JArr xs \<Rightarrow> xs | _ \<Rightarrow> [?l]). \<exists>log. x = JObj log"
    by simp
  from batch_without_message_rejected [OF a b, of no_repr 63839707200000000]
  obtain f where f: "submit_logs no_repr 63839707200000000 (JObj ?kvs) = Fail f"
    and m: "(\<forall>x \<in> set (case ?l of JArr xs \<Rightarrow> xs | _ \<Rightarrow> [?l]). \<exists>log. x = JObj log)
              \<longrightarrow> f = MissingMessage"
    by (elim conjE exE)
  have "f = MissingMessage"
    using m c by (rule mp)
  then show ?thesis
    using f by simp
qed

section \<open>The two spellings of UTC\<close>

lemma replace_Z_append: "replace_Z (a @ b) = replace_Z a @ replace_Z b"
  by (simp add: replace_Z_def)

lemma replace_Z_suffix: "replace_Z (s @ ''Z'') = replace_Z (s @ ''+00:00'')"
  unfolding replace_Z_append by (simp add: replace_Z_def)

lemma parse_timestamp_suffix:
  "parse_timestamp parse (JStr (s @ ''Z'')) = parse_timestamp parse (JStr (s @ ''+00:00''))"
  by (simp only: parse_timestamp_def json.case replace_Z_suffix)

lemma parse_window_suffix:
  "parse_window parse (JStr (s @ ''Z'')) (JStr (e @ ''Z'')) =
   parse_window parse (JStr (s @ ''+00:00'')) (JStr (e @ ''+00:00''))"
  by (simp only: parse_window_def parse_timestamp_suffix)

text \<open>
  C7. A start or end that ends in \<^verbatim>\<open>Z\<close> and the same text ending in \<^verbatim>\<open>+00:00\<close> resolve
  to the same result, for any parser: both reach \<^verbatim>\<open>fromisoformat\<close> as the same string. So
  the resolved pair of instants is the same (or both requests are rejected alike), and the
  absolute routes of both files answer the two requests identically.
\<close>

theorem z_suffix_same_instant:
  "parse_window parse (JStr (s @ ''Z'')) (JStr (e @ ''Z'')) =
     parse_window parse (JStr (s @ ''+00:00'')) (JStr (e @ ''+00:00''))
   \<and> opsight_search parse clock
       (JObj ((''start_time'', JStr (s @ ''Z'')) # (''end_time'', JStr (e @ ''Z'')) # rest)) =
     opsight_search parse clock
       (JObj ((''start_time'', JStr (s @ ''+00:00'')) # (''end_time'', JStr (e @ ''+00:00'')) # rest))
   \<and> querier_search parse repr
       (JObj ((''start_time'', JStr (s @ ''Z'')) # (''end_time'', JStr (e @ ''Z'')) # rest)) =
     querier_search parse repr
       (JObj ((''start_time'', JStr (s @ ''+00:00'')) # (''end_time'', JStr (e @ ''+00:00'')) # rest))"
proof (intro conjI)
  show "parse_window parse (JStr (s @ ''Z'')) (JStr (e @ ''Z'')) =
     parse_window parse (JStr (s @ ''+00:00'')) (JStr (e @ ''+00:00''))"
    by (rule parse_window_suffix)
  show "opsight_search parse clock
       (JObj ((''start_time'', JStr (s @ ''Z'')) # (''end_time'', JStr (e @ ''Z'')) # rest)) =
     opsight_search parse clock
       (JObj ((''start_time'', JStr (s @ ''+00:00'')) # (''end_time'', JStr (e @ ''+00:00'')) # rest))"
    using parse_window_suffix [of parse s e]
    by (simp add: opsight_search_def or_empty_def opsight_window_def has_key_def dict_get_def Let_def)
  show "querier_search parse repr
       (JObj ((''start_time'', JStr (s @ ''Z'')) # (''end_time'', JStr (e @ ''Z'')) # rest)) =
     querier_search parse repr
       (JObj ((''start_time'', JStr (s @ ''+00:00'')) # (''end_time'', JStr (e @ ''+00:00'')) # rest))"
    using parse_window_suffix [of parse s e]
    by (simp add: querier_search_def dict_get_def Let_def)
qed

theorem z_suffix_same_instant_witness:
  "parse_window parse_new_year (JStr ''2024-01-01T00:00:00Z'') (JStr ''2024-01-01T00:00:00Z'') =
     Inr (\<lparr>wall = 63839664000000000, tzoffset = Some 0\<rparr>,
          \<lparr>wall = 63839664000000000, tzoffset = Some 0\<rparr>)"
proof -
  have "parse_window parse_new_year (JStr (''2024-01-01T00:00:00'' @ ''+00:00''))
          (JStr (''2024-01-01T00:00:00'' @ ''+00:00'')) =
        Inr (\<lparr>wall = 63839664000000000, tzoffset = Some 0\<rparr>,
             \<lparr>wall = 63839664000000000, tzoffset = Some 0\<rparr>)"
    by (simp add: parse_window_def parse_timestamp_def replace_Z_def parse_new_year_def)
  then have "parse_window parse_new_year (JStr (''2024-01-01T00:00:00'' @ ''Z''))
          (JStr (''2024-01-01T00:00:00'' @ ''Z'')) =
        Inr (\<lparr>wall = 63839664000000000, tzoffset = Some 0\<rparr>,
             \<lparr>wall = 63839664000000000, tzoffset = Some 0\<rparr>)"
    by (simp only: z_suffix_same_instant [of parse_new_year "''2024-01-01T00:00:00''"
          "''2024-01-01T00:00:00''" 0 "[]" no_repr, THEN conjunct1])
  then show ?thesis
    by simp
qed

section \<open>The default window\<close>

lemma default_window_value:
  assumes "3600000000 \<le> clock" and "clock < max_wall"
  shows "default_window clock =
           Inr (\<lparr>wall = clock - 3600000000, tzoffset = None\<rparr>,
                \<lparr>wall = clock - 3600000000 + 300000000, tzoffset = None\<rparr>)"
  using assms
  by (simp add: default_window_def dt_sub_def dt_add_def utcnow_def td_defs Let_def)

text \<open>
  C8. On the raw-query route of opsight.py, a request without \<^verbatim>\<open>start_time\<close> or without
  \<^verbatim>\<open>end_time\<close> (in particular one with neither, or with no body at all) resolves to the
  window that starts one hour (3600000000 microseconds) before the clock reading and ends
  five minutes (300000000 microseconds) after its start; both instants go to the client
  as \<open>isoformat\<close> followed by \<^verbatim>\<open>Z\<close>. The clock is assumed to be a valid datetime at least
  an hour after 0001-01-01.
\<close>

theorem default_window_five_minutes:
  assumes body: "or_empty body = JObj kvs"
    and absent: "\<not> has_key kvs ''start_time'' \<or> \<not> has_key kvs ''end_time''"
    and clock: "3600000000 \<le> clock" "clock < max_wall"
  shows "\<exists>start_time end_time.
           opsight_window parse clock kvs = Inr (start_time, end_time)
         \<and> start_time = \<lparr>wall = wall (utcnow clock) - 3600000000, tzoffset = None\<rparr>
         \<and> end_time = \<lparr>wall = wall start_time + 300000000, tzoffset = None\<rparr>
         \<and> opsight_search parse clock body =
             dispatch (opsight_search_logs (dict_get kvs ''query'' (JStr ''datadog-agent''))
                         (isoformat start_time @ ''Z'') (isoformat end_time @ ''Z'')
                         (dict_get kvs ''limit'' (JInt 5)))"
proof -
  have w: "opsight_window parse clock kvs =
             Inr (\<lparr>wall = clock - 3600000000, tzoffset = None\<rparr>,
                  \<lparr>wall = clock - 3600000000 + 300000000, tzoffset = None\<rparr>)"
    using absent default_window_value [OF clock] by (auto simp: opsight_window_def)
  have h: "opsight_search parse clock body =
             dispatch (opsight_search_logs (dict_get kvs ''query'' (JStr ''datadog-agent''))
                         (isoformat \<lparr>wall = clock - 3600000000, tzoffset = None\<rparr> @ ''Z'')
                         (isoformat \<lparr>wall = clock - 3600000000 + 300000000, tzoffset = None\<rparr> @ ''Z'')
                         (dict_get kvs ''limit'' (JInt 5)))"
    using body w by (simp add: opsight_search_def Let_def)
  show ?thesis
    using w h by (simp add: utcnow_def)
qed

theorem default_window_five_minutes_witness:
  "opsight_search parse_new_year 63839707200000000 JNull =
     Post SearchV2
       (JObj [(''filter'', JObj [(''query'', JStr ''datadog-agent''),
                                 (''from'', JStr ''2024-01-01T11:00:00Z''),
                                 (''to'', JStr ''2024-01-01T11:05:00Z'')]),
              (''sort'', JStr ''-timestamp''),
              (''page'', JObj [(''limit'', JInt 5)])])"
proof -
  have a: "or_empty JNull = JObj []" by (simp add: or_empty_def)
  have b: "\<not> has_key [] ''start_time'' \<or> \<not> has_key [] ''end_time''" by (simp add: has_key_def)
  have c: "(3600000000::int) \<le> 63839707200000000" by simp
  have d: "(63839707200000000::int) < max_wall" by (simp add: td_defs)
  from default_window_five_minutes [OF a b c d, of parse_new_year]
  obtain s e where s: "s = \<lparr>wall = wall (utcnow 63839707200000000) - 3600000000, tzoffset = None\<rparr>"
    and e: "e = \<lparr>wall = wall s + 300000000, tzoffset = None\<rparr>"
    and h: "opsight_search parse_new_year 63839707200000000 JNull =
             dispatch (opsight_search_logs (dict_get [] ''query'' (JStr ''datadog-agent''))
                         (isoformat s @ ''Z'') (isoformat e @ ''Z'')
                         (dict_get [] ''limit'' (JInt 5)))"
    by (elim exE conjE)
  have s': "s = \<lparr>wall = 63839703600000000, tzoffset = None\<rparr>"
    using s by (simp add: utcnow_def)
  have e': "e = \<lparr>wall = 63839703900000000, tzoffset = None\<rparr>"
    using e unfolding s' by simp
  show ?thesis
    unfolding h s' e'
    by (simp add: dict_get_def opsight_search_logs_def dispatch_def iso_defs td_defs Let_def)
qed

section \<open>Empty required parameters\<close>

lemma dict_get_falsy:
  assumes "map_of kvs k = Some (JStr []) \<or> map_of kvs k = None"
  shows "\<not> truthy (dict_get kvs k JNull)"
  using assms by (auto simp: dict_get_def)

text \<open>
  C10. On the service routes (the relative route of both files and the absolute route of
  \<^verbatim>\<open>logs_querier.py\<close>), a required parameter whose value is the empty string is handled as
  a parameter that is absent from a non-empty body: the answer is the 400
  "Missing required parameters" naming the route's required keys, and the backend is not
  reached.
\<close>

theorem empty_parameter_is_missing:
  assumes nonempty: "kvs \<noteq> []"
    and empty: "map_of kvs k = Some (JStr []) \<or> map_of kvs k = None"
  shows "(k \<in> {''service'', ''timerange''} \<longrightarrow>
            search_logs_with_timerange client repr clock (JObj kvs) =
              Fail (MissingParameters [''service'', ''timerange'']))
       \<and> (k \<in> {''service'', ''start_time'', ''end_time''} \<longrightarrow>
            querier_search parse repr (JObj kvs) =
              Fail (MissingParameters [''service'', ''start_time'', ''end_time'']))
       \<and> http_status (MissingParameters ks) = 400
       \<and> error_msg (MissingParameters [''service'', ''timerange'']) =
            ''Missing required parameters: service, timerange''
       \<and> error_msg (MissingParameters [''service'', ''start_time'', ''end_time'']) =
            ''Missing required parameters: service, start_time, end_time''"
proof -
  have f: "\<not> truthy (dict_get kvs k JNull)"
    using empty by (rule dict_get_falsy)
  have a: "search_logs_with_timerange client repr clock (JObj kvs) =
             Fail (MissingParameters [''service'', ''timerange''])"
    if "k \<in> {''service'', ''timerange''}"
    using that f nonempty by (auto simp: search_logs_with_timerange_def Let_def)
  have b: "querier_search parse repr (JObj kvs) =
             Fail (MissingParameters [''service'', ''start_time'', ''end_time''])"
    if "k \<in> {''service'', ''start_time'', ''end_time''}"
    using that f nonempty by (auto simp: querier_search_def Let_def)
  show ?thesis
    using a b by simp
qed

theorem empty_parameter_is_missing_witness:
  "search_logs_with_timerange opsight_search_logs no_repr 63839707200000000
     (JObj [(''service'', JStr []), (''timerange'', JStr ''1h'')]) =
     Fail (MissingParameters [''service'', ''timerange''])
   \<and> querier_search parse_new_year no_repr
     (JObj [(''service'', JStr []), (''timerange'', JStr ''1h'')]) =
     Fail (MissingParameters [''service'', ''start_time'', ''end_time''])"
proof -
  let ?kvs = "[(''service'', JStr []), (''timerange'', JStr ''1h'')]"
  have a: "?kvs \<noteq> []" by simp
  have b: "map_of ?kvs ''service'' = Some (JStr []) \<or> map_of ?kvs ''service'' = None" by simp
  have c: "''service'' \<in> {''service'', ''timerange''}" by simp
  have d: "''service'' \<in> {''service'', ''start_time'', ''end_time''}" by simp
  note t = empty_parameter_is_missing [OF a b, of opsight_search_logs no_repr 63839707200000000
      parse_new_year]
  show ?thesis
    using t [THEN conjunct1, THEN mp, OF c] t [THEN conjunct2, THEN conjunct1, THEN mp, OF d]
    by (rule conjI)
qed

section \<open>The periodic logger never leaves its loop\<close>

lemma opsight_submit_step_no_sleep:
  "count_list (fst (opsight_submit_step t)) Sleep = 0"
  by (simp add: opsight_submit_step_def Let_def)

lemma opsight_try_body_sleeps:
  assumes "\<not> sleep_raises timer interval"
  shows "snd (opsight_try_body timer interval t) = False \<longrightarrow>
           count_list (fst (opsight_try_body timer interval t)) Sleep = 1"
    and "snd (opsight_try_body timer interval t) = True \<longrightarrow>
           count_list (fst (opsight_try_body timer interval t)) Sleep = 0"
proof -
  obtain ev raised where s: "opsight_submit_step t = (ev, raised)"
    by (cases "opsight_submit_step t")
  have z: "count_list ev Sleep = 0"
    using opsight_submit_step_no_sleep [of t] by (simp add: s)
  show "snd (opsight_try_body timer interval t) = False \<longrightarrow>
           count_list (fst (opsight_try_body timer interval t)) Sleep = 1"
    using assms z by (cases raised) (simp_all add: opsight_try_body_def s)
  show "snd (opsight_try_body timer interval t) = True \<longrightarrow>
           count_list (fst (opsight_try_body timer interval t)) Sleep = 0"
    using assms z by (cases raised) (simp_all add: opsight_try_body_def s)
qed

lemma querier_try_body_sleeps:
  assumes "\<not> sleep_raises timer interval"
  shows "snd (querier_try_body timer interval t) = False \<longrightarrow>
           count_list (fst (querier_try_body timer interval t)) Sleep = 1"
    and "snd (querier_try_body timer interval t) = True \<longrightarrow>
           count_list (fst (querier_try_body timer interval t)) Sleep = 0"
  using assms by (auto simp: querier_try_body_def)

lemma iteration_survives:
  assumes ok: "\<not> sleep_raises timer interval" and log: "\<not> handler_log_raises t"
    and once: "snd (body timer interval t) = False \<longrightarrow>
                 count_list (fst (body timer interval t)) Sleep = 1"
    and none: "snd (body timer interval t) = True \<longrightarrow>
                 count_list (fst (body timer interval t)) Sleep = 0"
  shows "snd (iteration body timer interval t) = Running
       \<and> count_list (fst (iteration body timer interval t)) Sleep = 1"
proof (cases "body timer interval t")
  case (Pair ev raised)
  then show ?thesis
    using ok log once none by (cases raised) (simp_all add: iteration_def)
qed

lemma run_loop_survives:
  assumes ok: "\<not> sleep_raises timer interval"
    and log: "\<forall>t \<in> set ts. \<not> handler_log_raises t"
    and once: "\<And>t. snd (body timer interval t) = False \<longrightarrow>
                 count_list (fst (body timer interval t)) Sleep = 1"
    and none: "\<And>t. snd (body timer interval t) = True \<longrightarrow>
                 count_list (fst (body timer interval t)) Sleep = 0"
  shows "snd (run_loop body timer interval ts) = Running
       \<and> count_list (fst (run_loop body timer interval ts)) Sleep = length ts"
  using log
proof (induction ts)
  case Nil
  then show ?case by simp
next
  case (Cons t ts)
  have it: "snd (iteration body timer interval t) = Running
          \<and> count_list (fst (iteration body timer interval t)) Sleep = 1"
    using ok Cons.prems once none by (intro iteration_survives) auto
  have rest: "snd (run_loop body timer interval ts) = Running
          \<and> count_list (fst (run_loop body timer interval ts)) Sleep = length ts"
    using Cons by simp
  obtain ev st where i: "iteration body timer interval t = (ev, st)"
    by (cases "iteration body timer interval t")
  obtain ev' st' where r: "run_loop body timer interval ts = (ev', st')"
    by (cases "run_loop body timer interval ts")
  show ?case
    using it rest by (simp add: i r)
qed

text \<open>
  The other direction: when \<^verbatim>\<open>time.sleep\<close> raises on the configured interval, the first
  pass already ends the thread, whatever else happens in it.
\<close>

lemma iteration_dies:
  assumes bad: "sleep_raises timer interval"
    and raised: "snd (body timer interval t) = True"
  shows "snd (iteration body timer interval t) = Dead"
proof (cases "body timer interval t")
  case (Pair ev r)
  then show ?thesis
    using bad raised by (simp add: iteration_def)
qed

lemma opsight_try_body_raises:
  assumes "sleep_raises timer interval"
  shows "snd (opsight_try_body timer interval t) = True"
proof -
  obtain ev raised where s: "opsight_submit_step t = (ev, raised)"
    by (cases "opsight_submit_step t")
  show ?thesis
    using assms by (cases raised) (simp_all add: opsight_try_body_def s)
qed

lemma periodic_logger_dies:
  assumes "sleep_raises timer interval"
  shows "snd (opsight_periodic_logger timer interval (t # ts)) = Dead"
    and "snd (querier_periodic_logger timer interval (t # ts)) = Dead"
proof -
  have a: "snd (iteration opsight_try_body timer interval t) = Dead"
    using assms opsight_try_body_raises [OF assms] by (rule iteration_dies)
  have "snd (querier_try_body timer interval t) = True"
    using assms by (simp add: querier_try_body_def)
  with assms have b: "snd (iteration querier_try_body timer interval t) = Dead"
    by (rule iteration_dies)
  obtain ev st where i: "iteration opsight_try_body timer interval t = (ev, st)"
    by (cases "iteration opsight_try_body timer interval t")
  obtain ev' st' where j: "iteration querier_try_body timer interval t = (ev', st')"
    by (cases "iteration querier_try_body timer interval t")
  show "snd (opsight_periodic_logger timer interval (t # ts)) = Dead"
    using a by (simp add: opsight_periodic_logger_def i)
  show "snd (querier_periodic_logger timer interval (t # ts)) = Dead"
    using b by (simp add: querier_periodic_logger_def j)
qed

text \<open>
  C9 (amended). Let the configured interval be not negative and one that the platform's
  \<^verbatim>\<open>time.sleep\<close> takes, and let the \<^verbatim>\<open>logger.error\<close> call of the outer \<^verbatim>\<open>except\<close> handler
  itself not raise. Then, whatever raises inside the \<^verbatim>\<open>try\<close> of any pass (building the
  status record, the prints, the submission, the logging of a failed submission, the
  local logging), the thread is still in its loop after any number of passes, and it has
  slept exactly once per pass. This holds for the loop of opsight.py and for that of
  \<^verbatim>\<open>logs_querier.py\<close>.
\<close>

theorem periodic_logger_survives:
  assumes interval: "0 \<le> interval" "timer interval"
    and handler: "\<forall>t \<in> set ts. \<not> handler_log_raises t"
  shows "snd (opsight_periodic_logger timer interval ts) = Running
       \<and> count_list (fst (opsight_periodic_logger timer interval ts)) Sleep = length ts
       \<and> snd (querier_periodic_logger timer interval ts) = Running
       \<and> count_list (fst (querier_periodic_logger timer interval ts)) Sleep = length ts"
proof -
  have ok: "\<not> sleep_raises timer interval"
    using interval by (simp add: sleep_raises_def)
  have a: "snd (run_loop opsight_try_body timer interval ts) = Running
         \<and> count_list (fst (run_loop opsight_try_body timer interval ts)) Sleep = length ts"
    using ok handler opsight_try_body_sleeps [OF ok] by (rule run_loop_survives)
  have b: "snd (run_loop querier_try_body timer interval ts) = Running
         \<and> count_list (fst (run_loop querier_try_body timer interval ts)) Sleep = length ts"
    using ok handler querier_try_body_sleeps [OF ok] by (rule run_loop_survives)
  show ?thesis
    using a b by (simp add: opsight_periodic_logger_def querier_periodic_logger_def)
qed

theorem periodic_logger_survives_witness:
  "snd (opsight_periodic_logger any_timer 30
     [\<lparr>uname_raises = False, print_attempt_raises = False, submit_raises = True,
        print_success_raises = False, print_failure_raises = False, error_log_raises = False,
        info_log_raises = False, handler_log_raises = False\<rparr>,
      \<lparr>uname_raises = True, print_attempt_raises = False, submit_raises = False,
        print_success_raises = False, print_failure_raises = False, error_log_raises = False,
        info_log_raises = False, handler_log_raises = False\<rparr>,
      \<lparr>uname_raises = False, print_attempt_raises = False, submit_raises = False,
        print_success_raises = True, print_failure_raises = True, error_log_raises = True,
        info_log_raises = True, handler_log_raises = False\<rparr>]) = Running"
proof -
  let ?ts = "[\<lparr>uname_raises = False, print_attempt_raises = False, submit_raises = True,
        print_success_raises = False, print_failure_raises = False, error_log_raises = False,
        info_log_raises = False, handler_log_raises = False\<rparr>,
      \<lparr>uname_raises = True, print_attempt_raises = False, submit_raises = False,
        print_success_raises = False, print_failure_raises = False, error_log_raises = False,
        info_log_raises = False, handler_log_raises = False\<rparr>,
      \<lparr>uname_raises = False, print_attempt_raises = False, submit_raises = False,
        print_success_raises = True, print_failure_raises = True, error_log_raises = True,
        info_log_raises = True, handler_log_raises = False\<rparr>]"
  have a: "(0::int) \<le> 30" by simp
  have b: "any_timer 30" by (simp add: any_timer_def)
  have c: "\<forall>t \<in> set ?ts. \<not> handler_log_raises t" by simp
  show ?thesis
    using periodic_logger_survives [where timer = any_timer and interval = 30, OF a b c]
    by (rule conjunct1)
qed

text \<open>
  With \<^verbatim>\<open>LOG_INTERVAL_SECONDS=-1\<close>, a pass whose submission fails: the failure is caught
  and logged, the local log is written, \<^verbatim>\<open>time.sleep(-1)\<close> raises into the handler, and
  the handler's own \<^verbatim>\<open>time.sleep(-1)\<close> raises out of the loop.
\<close>

theorem periodic_logger_counterexample:
  "opsight_periodic_logger any_timer (- 1)
     [\<lparr>uname_raises = False, print_attempt_raises = False, submit_raises = True,
        print_success_raises = False, print_failure_raises = False, error_log_raises = False,
        info_log_raises = False, handler_log_raises = False\<rparr>]
   = ([SubmitAttempt, ErrorLog, LocalLog, ErrorLog], Dead)"
  by (simp add: opsight_periodic_logger_def iteration_def opsight_try_body_def
      opsight_submit_step_def sleep_raises_def)

text \<open>
  A successful submission whose two prints raise (a console that cannot encode them): the
  pass goes through the outer handler and still ends in one sleep.
\<close>

lemma prints_raise_trace:
  "opsight_periodic_logger any_timer 30
     [\<lparr>uname_raises = False, print_attempt_raises = False, submit_raises = False,
        print_success_raises = True, print_failure_raises = True, error_log_raises = False,
        info_log_raises = False, handler_log_raises = False\<rparr>]
   = ([SubmitAttempt, ErrorLog, Sleep], Running)"
  by (simp add: opsight_periodic_logger_def iteration_def opsight_try_body_def
      opsight_submit_step_def sleep_raises_def any_timer_def)

end
